theory Spec2Isabelle
  imports Complex_Main "HOL-Library.Word"
begin

unbundle bit_operations_syntax

section \<open>msdf-atlas-gen: the standalone console program (main.cpp)\<close>

text \<open>
  The development follows \<^verbatim>\<open>src/msdf-atlas-gen/main.cpp\<close>. The C++ types are embedded as
  follows: \<^verbatim>\<open>unsigned long long\<close> is \<open>64 word\<close> and \<^verbatim>\<open>unsigned\<close> is \<open>32 word\<close>; an
  \<^verbatim>\<open>int\<close> is the integer it holds, and where main converts an \<^verbatim>\<open>unsigned\<close> to \<^verbatim>\<open>int\<close>
  the conversion is \<open>sint\<close> (the 32 bits read as two's complement); the \<^verbatim>\<open>int\<close> index
  that enters the 64-bit seed arithmetic is kept as a \<open>32 word\<close> and sign-extended there. A
  \<^verbatim>\<open>double\<close> is the real number it holds (the program only assigns and compares the
  doubles modelled here); a \<^verbatim>\<open>const char *\<close> that may be null is a \<open>string option\<close>.
\<close>

subsection \<open>Edge-colouring seeds\<close>

type_synonym ull = "64 word"

definition LCG_MULTIPLIER :: ull where
  "LCG_MULTIPLIER = 6364136223846793005"

definition LCG_INCREMENT :: ull where
  "LCG_INCREMENT = 1442695040888963407"

text \<open>
  The body of the lambda handed to \<^verbatim>\<open>Workload\<close> (expensive colouring): the seed that
  \<^verbatim>\<open>glyphs[i].edgeColoring\<close> receives. The index \<^verbatim>\<open>i\<close> is an \<^verbatim>\<open>int\<close>; in
  \<^verbatim>\<open>config.coloringSeed^i\<close> it is converted to \<^verbatim>\<open>unsigned long long\<close> (sign extension),
  and \<^verbatim>\<open>!!config.coloringSeed\<close> is 1 or 0.
\<close>

definition glyphSeed :: "ull \<Rightarrow> 32 word \<Rightarrow> ull" where
  "glyphSeed coloringSeed i =
     (LCG_MULTIPLIER * (coloringSeed XOR scast i) + LCG_INCREMENT) * of_bool (coloringSeed \<noteq> 0)"

text \<open>
  Modelled from the spec: \<^verbatim>\<open>Workload(fn, N).finish(threads)\<close> is declared in the library
  header, not in main.cpp; by section 4.4 of the specification it runs the task for every
  index of \<open>[0, N)\<close> exactly once. The result lists, by glyph index, the glyph and the seed of
  its \<^verbatim>\<open>edgeColoring\<close> call.
\<close>

definition expensiveColoringCalls :: "ull \<Rightarrow> 'g list \<Rightarrow> ('g \<times> ull) list" where
  "expensiveColoringCalls coloringSeed glyphs =
     map (\<lambda>i. (glyphs ! i, glyphSeed coloringSeed (word_of_nat i))) [0..<length glyphs]"

text \<open>
  The loop of the cheap colouring: \<^verbatim>\<open>glyphSeed *= LCG_MULTIPLIER\<close>, then the call, glyph
  after glyph. The running local \<^verbatim>\<open>glyphSeed\<close> is the argument \<open>seed\<close>.
\<close>

fun cheapColoringCalls :: "ull \<Rightarrow> 'g list \<Rightarrow> ('g \<times> ull) list" where
  "cheapColoringCalls seed [] = []"
| "cheapColoringCalls seed (glyph # glyphs) =
     (glyph, seed * LCG_MULTIPLIER) # cheapColoringCalls (seed * LCG_MULTIPLIER) glyphs"

subsection \<open>The data of main\<close>

text \<open>
  The enumerations and \<^verbatim>\<open>msdfgen::Range\<close> are declared in the library headers; their
  members are the ones main.cpp names. \<^verbatim>\<open>Configuration\<close> is the struct of main.cpp,
  field by field.
\<close>

datatype ImageType = HARD_MASK | SOFT_MASK | SDF | PSDF | MSDF | MTSDF

datatype ImageFormat =
  UNSPECIFIED | PNG | BMP | TIFF | RGBA | FL32 | TEXT | TEXT_FLOAT
  | BINARY | BINARY_FLOAT | BINARY_FLOAT_BE

datatype YDirection = BOTTOM_UP | TOP_DOWN

datatype Units = EMS | PIXELS

datatype PackingStyle = TIGHT | GRID

datatype DimensionsConstraint =
  NONE | SQUARE | EVEN_SQUARE | MULTIPLE_OF_FOUR_SQUARE
  | POWER_OF_TWO_RECTANGLE | POWER_OF_TWO_SQUARE

datatype ErrorCorrectionMode = DISABLED | INDISCRIMINATE | EDGE_PRIORITY | EDGE_ONLY

datatype DistanceCheckMode =
  DO_NOT_CHECK_DISTANCE | CHECK_DISTANCE_AT_EDGE | ALWAYS_CHECK_DISTANCE

datatype EdgeColoring = edgeColoringSimple | edgeColoringInkTrap | edgeColoringByDistance

record Range =
  lower :: real
  upper :: real

record ErrorCorrectionConfig =
  mode :: ErrorCorrectionMode
  distanceCheckMode :: DistanceCheckMode
  minDeviationRatio :: real
  minImproveRatio :: real

record GeneratorConfig =
  overlapSupport :: bool
  errorCorrection :: ErrorCorrectionConfig

record GeneratorAttributes =
  genConfig :: GeneratorConfig
  scanlinePass :: bool

record GridConfiguration =
  cellWidth :: int
  cellHeight :: int
  cols :: int
  rows :: int
  fixedOriginX :: bool
  fixedOriginY :: bool

record Configuration =
  imageType :: ImageType
  imageFormat :: ImageFormat
  yDirection :: YDirection
  width :: int
  height :: int
  emSize :: real
  pxRange :: Range
  angleThreshold :: real
  miterLimit :: real
  pxAlignOriginX :: bool
  pxAlignOriginY :: bool
  grid :: GridConfiguration
  edgeColoring :: EdgeColoring
  expensiveColoring :: bool
  coloringSeed :: ull
  generatorAttributes :: GeneratorAttributes
  preprocessGeometry :: bool
  kerning :: bool
  threadCount :: int
  arteryFontFilename :: "string option"
  imageFilename :: "string option"
  jsonFilename :: "string option"
  csvFilename :: "string option"
  shadronPreviewFilename :: "string option"
  shadronPreviewText :: "string option"

text \<open>
  The local variables of \<^verbatim>\<open>main\<close> that outlive the command-line loop. The field
  \<open>genConfig\<close> above is \<^verbatim>\<open>GeneratorAttributes::config\<close>, renamed apart from the local
  \<^verbatim>\<open>config\<close>. The four paddings are handed to the packer unchanged and are left out, as
  are the font inputs. Two blocks of main are not modelled: the one that settles the image
  format (lines 1062 to 1131), which writes \<^verbatim>\<open>imageFormat\<close>, \<^verbatim>\<open>arteryFontFilename\<close>,
  \<^verbatim>\<open>result\<close>, \<^verbatim>\<open>layoutOnly\<close> and \<^verbatim>\<open>floatingPointFormat\<close>, and the one that loads the
  fonts (lines 1146 to 1262); the later blocks take these values and the glyphs as given.
\<close>

record Locals =
  config :: Configuration
  result :: int
  layoutOnly :: bool
  floatingPointFormat :: bool
  fixedWidth :: int
  fixedHeight :: int
  fixedCellWidth :: int
  fixedCellHeight :: int
  packingSpacing :: int
  minEmSize :: real
  rangeUnits :: Units
  rangeValue :: Range
  packingStyle :: PackingStyle
  atlasSizeConstraint :: DimensionsConstraint
  cellSizeConstraint :: DimensionsConstraint
  explicitErrorCorrectionMode :: bool

text \<open>What the program writes to the standard error stream (the lines modelled here).\<close>

datatype Message =
  NoticeDefaultSize
  | WarnErrorCorrectionFallback string
  | ErrPackFailed
  | ErrUnplaced int int
  | ErrNoAtlasDimensions
  | WarnGridCutoff
  | MsgImageSaved
  | ErrImageSave
  | MsgArteryFont
  | ErrArteryFont
  | MsgCSV
  | ErrCSV
  | MsgJSON
  | ErrJSON
  | MsgShadronPreview
  | ErrShadronPreview
  | ErrShadronGlyphset

definition DEFAULT_SIZE :: real where
  "DEFAULT_SIZE = 32.0"

definition DEFAULT_PIXEL_RANGE :: real where
  "DEFAULT_PIXEL_RANGE = 2.0"

subsection \<open>The options \<^verbatim>\<open>-spacing\<close> and \<^verbatim>\<open>-dimensions\<close>\<close>

text \<open>
  \<^verbatim>\<open>unsigned s; ... packingSpacing = s;\<close> after a successful \<^verbatim>\<open>parseUnsigned\<close>: the
  unsigned value is converted to \<^verbatim>\<open>int\<close>, which keeps the 32 bits.
\<close>

definition argSpacing :: "32 word \<Rightarrow> Locals \<Rightarrow> Locals" where
  "argSpacing s st = st\<lparr>packingSpacing := sint s\<rparr>"

text \<open>
  The option \<^verbatim>\<open>-errorcorrection\<close> (lines 862 to 896) writes the mode and the distance-check
  mode that belong to its argument, for example \<open>INDISCRIMINATE\<close> and
  \<open>ALWAYS_CHECK_DISTANCE\<close> for \<^verbatim>\<open>distance-full\<close>; this is the assignment.
\<close>

definition setErrorCorrection ::
  "ErrorCorrectionMode \<Rightarrow> DistanceCheckMode \<Rightarrow> Configuration \<Rightarrow> Configuration" where
  "setErrorCorrection m d c =
     c\<lparr>generatorAttributes := (generatorAttributes c)
         \<lparr>genConfig := (genConfig (generatorAttributes c))
             \<lparr>errorCorrection := (errorCorrection (genConfig (generatorAttributes c)))
                 \<lparr>mode := m, distanceCheckMode := d\<rparr>\<rparr>\<rparr>\<rparr>"

text \<open>
  \<^verbatim>\<open>unsigned w, h;\<close> after two successful \<^verbatim>\<open>parseUnsigned\<close>: main aborts unless
  \<^verbatim>\<open>w && h\<close> (the result \<open>None\<close>), and otherwise stores both in the \<^verbatim>\<open>int\<close> variables
  \<^verbatim>\<open>fixedWidth\<close> and \<^verbatim>\<open>fixedHeight\<close> (lines 623 to 629).
\<close>

definition argDimensions :: "32 word \<Rightarrow> 32 word \<Rightarrow> Locals \<Rightarrow> Locals option" where
  "argDimensions w h st =
     (if \<not> (w \<noteq> 0 \<and> h \<noteq> 0) then None
      else Some (st\<lparr>fixedWidth := sint w, fixedHeight := sint h\<rparr>))"

subsection \<open>Fixing up the configuration (lines 1026 to 1060)\<close>

text \<open>
  Each definition is one statement of the block, in the order of the source. Two of them
  print; they return the lines printed.
\<close>

definition fixAtlasSizeConstraint :: "Locals \<Rightarrow> Locals" where
  "fixAtlasSizeConstraint st =
     (if packingStyle st = TIGHT \<and> atlasSizeConstraint st = NONE
      then st\<lparr>atlasSizeConstraint := MULTIPLE_OF_FOUR_SQUARE\<rparr> else st)"

definition fixMiterLimit :: "Locals \<Rightarrow> Locals" where
  "fixMiterLimit st =
     (if \<not> (imageType (config st) = PSDF \<or> imageType (config st) = MSDF
             \<or> imageType (config st) = MTSDF)
      then st\<lparr>config := (config st)\<lparr>miterLimit := 0\<rparr>\<rparr> else st)"

definition fixMinEmSize :: "Locals \<Rightarrow> Locals" where
  "fixMinEmSize st =
     (if emSize (config st) > minEmSize st then st\<lparr>minEmSize := emSize (config st)\<rparr> else st)"

definition fixDefaultSize :: "Locals \<Rightarrow> Locals \<times> Message list" where
  "fixDefaultSize st =
     (if \<not> (fixedWidth st > 0 \<and> fixedHeight st > 0)
         \<and> \<not> (fixedCellWidth st > 0 \<and> fixedCellHeight st > 0)
         \<and> \<not> (minEmSize st > 0)
      then (st\<lparr>minEmSize := DEFAULT_SIZE\<rparr>, [NoticeDefaultSize])
      else (st, []))"

text \<open>
  The constructor \<^verbatim>\<open>msdfgen::Range(double)\<close> behind \<^verbatim>\<open>rangeValue = 1\<close> belongs to the
  msdfgen library; it is the parameter \<open>mkRange\<close>.
\<close>

definition fixRange :: "(real \<Rightarrow> Range) \<Rightarrow> Locals \<Rightarrow> Locals" where
  "fixRange mkRange st =
     (if imageType (config st) = HARD_MASK \<or> imageType (config st) = SOFT_MASK
      then st\<lparr>rangeUnits := PIXELS, rangeValue := mkRange 1\<rparr>
      else if lower (rangeValue st) = upper (rangeValue st)
      then st\<lparr>rangeUnits := PIXELS, rangeValue := mkRange DEFAULT_PIXEL_RANGE\<rparr>
      else st)"

definition fixKerning :: "Locals \<Rightarrow> Locals" where
  "fixKerning st =
     (if kerning (config st)
         \<and> \<not> (arteryFontFilename (config st) \<noteq> None \<or> jsonFilename (config st) \<noteq> None
              \<or> shadronPreviewFilename (config st) \<noteq> None)
      then st\<lparr>config := (config st)\<lparr>kerning := False\<rparr>\<rparr> else st)"

text \<open>
  \<^verbatim>\<open>std::thread::hardware_concurrency()\<close> returns an \<^verbatim>\<open>unsigned\<close>, the parameter
  \<open>hardware_concurrency\<close>; the cast \<^verbatim>\<open>(int)\<close> reads its 32 bits as signed.
\<close>

definition fixThreadCount :: "32 word \<Rightarrow> Locals \<Rightarrow> Locals" where
  "fixThreadCount hardware_concurrency st =
     (if threadCount (config st) \<le> 0
      then st\<lparr>config := (config st)\<lparr>threadCount := max (sint hardware_concurrency) 1\<rparr>\<rparr>
      else st)"

fun fallbackModeName :: "ErrorCorrectionMode \<Rightarrow> string" where
  "fallbackModeName DISABLED = ''disabled''"
| "fallbackModeName INDISCRIMINATE = ''distance-fast''"
| "fallbackModeName EDGE_PRIORITY = ''auto-fast''"
| "fallbackModeName EDGE_ONLY = ''edge-fast''"

definition setDistanceCheckMode :: "DistanceCheckMode \<Rightarrow> Configuration \<Rightarrow> Configuration" where
  "setDistanceCheckMode d c =
     c\<lparr>generatorAttributes := (generatorAttributes c)
         \<lparr>genConfig := (genConfig (generatorAttributes c))
             \<lparr>errorCorrection := (errorCorrection (genConfig (generatorAttributes c)))
                 \<lparr>distanceCheckMode := d\<rparr>\<rparr>\<rparr>\<rparr>"

definition fixScanlinePass :: "Locals \<Rightarrow> Locals \<times> Message list" where
  "fixScanlinePass st =
     (if scanlinePass (generatorAttributes (config st))
      then (st\<lparr>config := setDistanceCheckMode DO_NOT_CHECK_DISTANCE (config st)\<rparr>,
            if explicitErrorCorrectionMode st
               \<and> distanceCheckMode (errorCorrection (genConfig (generatorAttributes (config st))))
                   \<noteq> DO_NOT_CHECK_DISTANCE
            then [WarnErrorCorrectionFallback
                    (fallbackModeName
                       (mode (errorCorrection (genConfig (generatorAttributes (config st))))))]
            else [])
      else (st, []))"

definition fixupConfiguration ::
  "(real \<Rightarrow> Range) \<Rightarrow> 32 word \<Rightarrow> Locals \<Rightarrow> Locals \<times> Message list" where
  "fixupConfiguration mkRange hardware_concurrency st =
     (let st1 = fixMinEmSize (fixMiterLimit (fixAtlasSizeConstraint st));
          (st2, notice) = fixDefaultSize st1;
          st3 = fixThreadCount hardware_concurrency (fixKerning (fixRange mkRange st2));
          (st4, warning) = fixScanlinePass st3
      in (st4, notice @ warning))"

subsection \<open>Packing (lines 1134 to 1143 and 1264 to 1408)\<close>

definition computeSpacing :: "Locals \<Rightarrow> int" where
  "computeSpacing st =
     (if imageType (config st) = SDF \<or> imageType (config st) = MSDF
         \<or> imageType (config st) = MTSDF
      then (if packingSpacing st > 0 then packingSpacing st else 0)
      else -1)"

text \<open>
  The atlas packers are library classes. A packer is a parameter: a function from what main
  sets on it (one field for each setter main calls, \<open>None\<close> where main does not call it) and
  the glyphs to what main reads back (the value \<^verbatim>\<open>pack\<close> returns and the getters).
\<close>

record PackerSettings =
  setFixedOrigin :: "(bool \<times> bool) option"
  setCellDimensions :: "(int \<times> int) option"
  setCellDimensionsConstraint :: "DimensionsConstraint option"
  setColumns :: "int option"
  setDimensions :: "(int \<times> int) option"
  setDimensionsConstraint :: "DimensionsConstraint option"
  setSpacing :: int
  setScale :: "real option"
  setMinimumScale :: "real option"
  setPixelRange :: Range
  setUnitRange :: Range
  setMiterLimit :: real
  setOriginPixelAlignment :: "bool \<times> bool"

record PackerResult =
  remaining :: int
  hasCutoff :: bool
  getDimensions :: "int \<times> int"
  getScale :: real
  getPixelRange :: Range
  getCellDimensions :: "int \<times> int"
  getColumns :: int
  getRows :: int

type_synonym 'g Packer = "PackingStyle \<Rightarrow> PackerSettings \<Rightarrow> 'g list \<Rightarrow> PackerResult"

definition fixedDimensions :: "Locals \<Rightarrow> bool" where
  "fixedDimensions st \<longleftrightarrow> fixedWidth st \<ge> 0 \<and> fixedHeight st \<ge> 0"

definition fixedScale :: "Locals \<Rightarrow> bool" where
  "fixedScale st \<longleftrightarrow> emSize (config st) > 0"

definition packerSettings :: "(real \<Rightarrow> Range) \<Rightarrow> Locals \<Rightarrow> PackerSettings" where
  "packerSettings mkRange st =
     \<lparr>setFixedOrigin =
        (if packingStyle st = GRID
         then Some (fixedOriginX (grid (config st)), fixedOriginY (grid (config st)))
         else None),
      setCellDimensions =
        (if packingStyle st = GRID \<and> fixedCellWidth st \<ge> 0 \<and> fixedCellHeight st \<ge> 0
         then Some (fixedCellWidth st, fixedCellHeight st) else None),
      setCellDimensionsConstraint =
        (if packingStyle st = GRID \<and> \<not> (fixedCellWidth st \<ge> 0 \<and> fixedCellHeight st \<ge> 0)
         then Some (cellSizeConstraint st) else None),
      setColumns =
        (if packingStyle st = GRID \<and> cols (grid (config st)) > 0
         then Some (cols (grid (config st))) else None),
      setDimensions =
        (if fixedDimensions st then Some (fixedWidth st, fixedHeight st) else None),
      setDimensionsConstraint =
        (if fixedDimensions st then None else Some (atlasSizeConstraint st)),
      setSpacing = computeSpacing st,
      setScale = (if fixedScale st then Some (emSize (config st)) else None),
      setMinimumScale = (if fixedScale st then None else Some (minEmSize st)),
      setPixelRange = (case rangeUnits st of EMS \<Rightarrow> mkRange 0 | PIXELS \<Rightarrow> rangeValue st),
      setUnitRange = (case rangeUnits st of EMS \<Rightarrow> rangeValue st | PIXELS \<Rightarrow> mkRange 0),
      setMiterLimit = miterLimit (config st),
      setOriginPixelAlignment = (pxAlignOriginX (config st), pxAlignOriginY (config st))\<rparr>"

text \<open>\<^verbatim>\<open>(int) glyphs.size()\<close>, the glyph count as the program prints it.\<close>

definition glyphCount :: "'g list \<Rightarrow> int" where
  "glyphCount glyphs = sint (word_of_nat (length glyphs) :: 32 word)"

text \<open>What main copies from the packer into \<^verbatim>\<open>config\<close> once \<^verbatim>\<open>pack\<close> has returned 0.\<close>

definition storeDimensions :: "PackerResult \<Rightarrow> Configuration \<Rightarrow> Configuration" where
  "storeDimensions r c = c\<lparr>width := fst (getDimensions r), height := snd (getDimensions r)\<rparr>"

definition storeScaleRange :: "PackerResult \<Rightarrow> Configuration \<Rightarrow> Configuration" where
  "storeScaleRange r c = c\<lparr>emSize := getScale r, pxRange := getPixelRange r\<rparr>"

definition storeGrid :: "PackerResult \<Rightarrow> Configuration \<Rightarrow> Configuration" where
  "storeGrid r c =
     c\<lparr>grid := (grid c)\<lparr>cellWidth := fst (getCellDimensions r),
                         cellHeight := snd (getCellDimensions r),
                         cols := getColumns r, rows := getRows r\<rparr>\<rparr>"

text \<open>
  The block that packs: \<open>Inl\<close> is a \<^verbatim>\<open>return\<close> from main with the exit status and the
  lines printed, \<open>Inr\<close> the locals after the block. Output on the standard output stream
  (glyph size, atlas and cell dimensions) is not modelled.
\<close>

definition packStage ::
  "(real \<Rightarrow> Range) \<Rightarrow> 'g Packer \<Rightarrow> Locals \<Rightarrow> 'g list
     \<Rightarrow> (int \<times> Message list) + (Locals \<times> Message list)" where
  "packStage mkRange pack st glyphs =
     (let r = pack (packingStyle st) (packerSettings mkRange st) glyphs
      in if remaining r \<noteq> 0
         then (if remaining r < 0 then Inl (1, [ErrPackFailed])
               else Inl (1, [ErrUnplaced (remaining r) (glyphCount glyphs)]))
         else
           (let cutoff = (if packingStyle st = GRID \<and> hasCutoff r then [WarnGridCutoff] else []);
                c1 = storeDimensions r (config st)
            in if \<not> (width c1 > 0 \<and> height c1 > 0)
               then Inl (1, cutoff @ [ErrNoAtlasDimensions])
               else
                 (case packingStyle st of
                    TIGHT \<Rightarrow> Inr (st\<lparr>config := storeScaleRange r c1\<rparr>, cutoff)
                  | GRID \<Rightarrow> Inr (st\<lparr>config := storeGrid r (storeScaleRange r c1)\<rparr>, cutoff))))"

subsection \<open>Edge colouring, generation and export (lines 1410 to 1519)\<close>

text \<open>
  How main runs the \<^verbatim>\<open>edgeColoring\<close> calls. \<open>MainLoop\<close> is the range-based \<^verbatim>\<open>for\<close> loop
  over the glyphs in the body of main: the calls are made one after the other, in the order
  of the list, by the thread that runs main, and no \<^verbatim>\<open>Workload\<close> is constructed.
  \<open>WorkloadFinish t\<close> is \<^verbatim>\<open>Workload(...).finish(t)\<close>: the calls are tasks of the library's
  scheduler, which may spread them over \<open>t\<close> threads.
\<close>

datatype Dispatch = MainLoop | WorkloadFinish int

text \<open>
  The edge-colouring block (lines 1414 to 1428): \<open>None\<close> when the image type has a single
  channel, otherwise how the calls are run and the calls themselves.
\<close>

definition edgeColoringStage ::
  "Configuration \<Rightarrow> 'g list \<Rightarrow> (Dispatch \<times> ('g \<times> ull) list) option" where
  "edgeColoringStage c glyphs =
     (if imageType c = MSDF \<or> imageType c = MTSDF
      then (if expensiveColoring c
            then Some (WorkloadFinish (threadCount c),
                       expensiveColoringCalls (coloringSeed c) glyphs)
            else Some (MainLoop, cheapColoringCalls (coloringSeed c) glyphs))
      else None)"

definition edgeColoringCalls :: "Configuration \<Rightarrow> 'g list \<Rightarrow> ('g \<times> ull) list" where
  "edgeColoringCalls c glyphs =
     (case edgeColoringStage c glyphs of None \<Rightarrow> [] | Some (dispatch, calls) \<Rightarrow> calls)"

datatype Generator =
  scanlineGenerator | sdfGenerator | psdfGenerator | msdfGenerator | mtsdfGenerator

text \<open>
  What the program does to the outside: running the atlas generator (with the generator
  function, the channel count and whether the storage is floating point) and calling an
  exporter on a file name.
\<close>

datatype Action =
  Generate Generator nat bool
  | SaveImage string
  | ExportArteryFont string
  | ExportCSV string
  | ExportJSON string
  | GenerateShadronPreview string

text \<open>Whether each exporter of the library succeeds in this run.\<close>

record Sinks =
  saveImage :: bool
  exportArteryFont :: bool
  exportCSV :: bool
  exportJSON :: bool
  generateShadronPreview :: bool
  anyCodepointsAvailable :: bool

text \<open>
  \<^verbatim>\<open>makeAtlas\<close> takes the configuration by reference to const: it returns its success flag,
  its lines and its actions, and no configuration.
\<close>

definition makeAtlas ::
  "Generator \<Rightarrow> nat \<Rightarrow> bool \<Rightarrow> Sinks \<Rightarrow> Configuration \<Rightarrow> bool \<times> Message list \<times> Action list" where
  "makeAtlas gen n fp sinks c =
     (let (s1, m1, a1) =
            (case imageFilename c of
               None \<Rightarrow> (True, [], [])
             | Some f \<Rightarrow> if saveImage sinks then (True, [MsgImageSaved], [SaveImage f])
                         else (False, [ErrImageSave], [SaveImage f]));
          (s2, m2, a2) =
            (case arteryFontFilename c of
               None \<Rightarrow> (s1, [], [])
             | Some f \<Rightarrow> if exportArteryFont sinks then (s1, [MsgArteryFont], [ExportArteryFont f])
                         else (False, [ErrArteryFont], [ExportArteryFont f]))
      in (s2, m1 @ m2, Generate gen n fp # a1 @ a2))"

fun generatorOf :: "ImageType \<Rightarrow> Generator \<times> nat" where
  "generatorOf HARD_MASK = (scanlineGenerator, 1)"
| "generatorOf SOFT_MASK = (sdfGenerator, 1)"
| "generatorOf SDF = (sdfGenerator, 1)"
| "generatorOf PSDF = (psdfGenerator, 1)"
| "generatorOf MSDF = (msdfGenerator, 3)"
| "generatorOf MTSDF = (mtsdfGenerator, 4)"

definition generateStage ::
  "Sinks \<Rightarrow> Locals \<Rightarrow> 'g list
     \<Rightarrow> Locals \<times> Message list \<times> Action list \<times> (Dispatch \<times> ('g \<times> ull) list) option" where
  "generateStage sinks st glyphs =
     (if \<not> layoutOnly st
      then
        (let coloring = edgeColoringStage (config st) glyphs;
             (gen, n) = generatorOf (imageType (config st));
             (success, msgs, acts) = makeAtlas gen n (floatingPointFormat st) sinks (config st)
         in ((if \<not> success then st\<lparr>result := 1\<rparr> else st), msgs, acts, coloring))
      else (st, [], [], None))"

definition exportStage :: "Sinks \<Rightarrow> Locals \<Rightarrow> Locals \<times> Message list \<times> Action list" where
  "exportStage sinks st =
     (let (st1, m1, a1) =
            (case csvFilename (config st) of
               None \<Rightarrow> (st, [], [])
             | Some f \<Rightarrow> if exportCSV sinks then (st, [MsgCSV], [ExportCSV f])
                         else (st\<lparr>result := 1\<rparr>, [ErrCSV], [ExportCSV f]));
          (st2, m2, a2) =
            (case jsonFilename (config st1) of
               None \<Rightarrow> (st1, [], [])
             | Some f \<Rightarrow> if exportJSON sinks then (st1, [MsgJSON], [ExportJSON f])
                         else (st1\<lparr>result := 1\<rparr>, [ErrJSON], [ExportJSON f]));
          (st3, m3, a3) =
            (case (shadronPreviewFilename (config st2), shadronPreviewText (config st2)) of
               (Some f, Some t) \<Rightarrow>
                 if anyCodepointsAvailable sinks
                 then (if generateShadronPreview sinks
                       then (st2, [MsgShadronPreview], [GenerateShadronPreview f])
                       else (st2\<lparr>result := 1\<rparr>, [ErrShadronPreview], [GenerateShadronPreview f]))
                 else (st2\<lparr>result := 1\<rparr>, [ErrShadronGlyphset], [])
             | _ \<Rightarrow> (st2, [], []))
      in (st3, m1 @ m2 @ m3, a1 @ a2 @ a3))"

text \<open>
  main from the packing block to its last \<^verbatim>\<open>return\<close>: the exit status, the lines printed,
  the actions, the edge-colouring calls and how they were run.
\<close>

record 'g Outcome =
  exitCode :: int
  printed :: "Message list"
  actions :: "Action list"
  coloring :: "('g \<times> ull) list"
  dispatch :: "Dispatch option"

definition mainTail ::
  "(real \<Rightarrow> Range) \<Rightarrow> 'g Packer \<Rightarrow> Sinks \<Rightarrow> Locals \<Rightarrow> 'g list \<Rightarrow> 'g Outcome" where
  "mainTail mkRange pack sinks st glyphs =
     (case packStage mkRange pack st glyphs of
        Inl (code, msgs) \<Rightarrow>
          \<lparr>exitCode = code, printed = msgs, actions = [], coloring = [], dispatch = None\<rparr>
      | Inr (st1, m1) \<Rightarrow>
          (let (st2, m2, a2, col) = generateStage sinks st1 glyphs;
               (st3, m3, a3) = exportStage sinks st2
           in \<lparr>exitCode = result st3, printed = m1 @ m2 @ m3, actions = a2 @ a3,
               coloring = (case col of None \<Rightarrow> [] | Some (d, calls) \<Rightarrow> calls),
               dispatch = map_option fst col\<rparr>))"

text \<open>
  The configuration at the completion of bitmap generation, when main gets that far:
  \<open>None\<close> when the packing block returns from main.
\<close>

definition configAfterGeneration ::
  "(real \<Rightarrow> Range) \<Rightarrow> 'g Packer \<Rightarrow> Sinks \<Rightarrow> Locals \<Rightarrow> 'g list \<Rightarrow> Configuration option" where
  "configAfterGeneration mkRange pack sinks st glyphs =
     (case packStage mkRange pack st glyphs of
        Inl _ \<Rightarrow> None
      | Inr (st1, _) \<Rightarrow> Some (config (fst (generateStage sinks st1 glyphs))))"

abbreviation errorCorrectionOf :: "Locals \<Rightarrow> ErrorCorrectionConfig" where
  "errorCorrectionOf st \<equiv> errorCorrection (genConfig (generatorAttributes (config st)))"

subsection \<open>A concrete run\<close>

text \<open>
  The values main gives its variables before it reads the command line, in a build without
  Skia (lines 425 to 467); \<^verbatim>\<open>Configuration config = { }\<close> clears every field main does not
  set. The error-correction fields are left to the library by main and are fixed here to
  edge priority with the distance check at edges. \<open>symmetricRange\<close> stands in for the
  library's range constructor: the range of the given width around 0. \<open>layoutOnly\<close> and
  \<open>floatingPointFormat\<close> are computed later in main; they start as for an image output in a
  fixed-point format.
\<close>

definition symmetricRange :: "real \<Rightarrow> Range" where
  "symmetricRange w = \<lparr>lower = - (w / 2), upper = w / 2\<rparr>"

definition initialConfiguration :: Configuration where
  "initialConfiguration =
     \<lparr>imageType = MSDF, imageFormat = UNSPECIFIED, yDirection = BOTTOM_UP,
      width = 0, height = 0, emSize = 0, pxRange = symmetricRange 0,
      angleThreshold = 3, miterLimit = 1,
      pxAlignOriginX = False, pxAlignOriginY = True,
      grid = \<lparr>cellWidth = 0, cellHeight = 0, cols = 0, rows = 0,
              fixedOriginX = False, fixedOriginY = True\<rparr>,
      edgeColoring = edgeColoringInkTrap, expensiveColoring = False, coloringSeed = 0,
      generatorAttributes =
        \<lparr>genConfig =
           \<lparr>overlapSupport = True,
            errorCorrection =
              \<lparr>mode = EDGE_PRIORITY, distanceCheckMode = CHECK_DISTANCE_AT_EDGE,
               minDeviationRatio = 10 / 9, minImproveRatio = 10 / 9\<rparr>\<rparr>,
         scanlinePass = True\<rparr>,
      preprocessGeometry = False, kerning = True, threadCount = 0,
      arteryFontFilename = None, imageFilename = None, jsonFilename = None,
      csvFilename = None, shadronPreviewFilename = None, shadronPreviewText = None\<rparr>"

definition initialLocals :: Locals where
  "initialLocals =
     \<lparr>config = initialConfiguration, result = 0, layoutOnly = False,
      floatingPointFormat = False,
      fixedWidth = -1, fixedHeight = -1, fixedCellWidth = -1, fixedCellHeight = -1,
      packingSpacing = -1, minEmSize = 0, rangeUnits = PIXELS, rangeValue = symmetricRange 0,
      packingStyle = TIGHT, atlasSizeConstraint = NONE, cellSizeConstraint = NONE,
      explicitErrorCorrectionMode = False\<rparr>"

text \<open>
  A packer that answers \<^verbatim>\<open>pack\<close> with \<open>k\<close> and reports a 64 by 64 atlas at 32 pixels per
  em, and exporters that all succeed.
\<close>

definition samplePacker :: "int \<Rightarrow> string Packer" where
  "samplePacker k style settings glyphs =
     \<lparr>remaining = k, hasCutoff = False, getDimensions = (64, 64), getScale = 32,
      getPixelRange = symmetricRange 2, getCellDimensions = (0, 0),
      getColumns = 0, getRows = 0\<rparr>"

text \<open>A grid packer that reports cells of 16 by 16 pixels in 4 columns and 4 rows.\<close>

definition sampleGridPacker :: "string Packer" where
  "sampleGridPacker style settings glyphs =
     \<lparr>remaining = 0, hasCutoff = False, getDimensions = (64, 64), getScale = 12,
      getPixelRange = symmetricRange 2, getCellDimensions = (16, 16),
      getColumns = 4, getRows = 4\<rparr>"

definition sampleSinks :: Sinks where
  "sampleSinks =
     \<lparr>saveImage = True, exportArteryFont = True, exportCSV = True, exportJSON = True,
      generateShadronPreview = True, anyCodepointsAvailable = True\<rparr>"

section \<open>Properties\<close>

subsection \<open>Seeds of the edge colouring\<close>

lemma LCG_MULTIPLIER_inverse: "(13877824140714322085 :: ull) * LCG_MULTIPLIER = 1"
  by (simp add: LCG_MULTIPLIER_def)

lemma LCG_MULTIPLIER_cancel:
  assumes "LCG_MULTIPLIER * a = LCG_MULTIPLIER * b"
  shows "a = b"
proof -
  have "a = (13877824140714322085 * LCG_MULTIPLIER) * a"
    by (simp only: LCG_MULTIPLIER_inverse mult_1)
  also have "\<dots> = 13877824140714322085 * (LCG_MULTIPLIER * b)"
    by (simp only: mult.assoc assms)
  also have "\<dots> = b"
    by (simp only: mult.assoc [symmetric] LCG_MULTIPLIER_inverse mult_1)
  finally show ?thesis .
qed

lemma scast_int_inject:
  fixes i j :: "32 word"
  assumes "(scast i :: ull) = scast j"
  shows "i = j"
proof -
  have up: "is_up (scast :: 32 word \<Rightarrow> ull)"
    by (simp add: is_up)
  have "sint (scast i :: ull) = sint (scast j :: ull)"
    using assms by simp
  then have "sint i = sint j"
    by (simp only: sint_up_scast [OF up])
  then show ?thesis
    by (rule signed_word_eqI)
qed

lemma scast_nonneg_index:
  fixes i :: nat
  assumes "i < 2 ^ 31"
  shows "(scast (word_of_nat i :: 32 word) :: ull) = word_of_nat i"
proof -
  have "sint (word_of_nat i :: 32 word) = int i"
    using assms by (simp add: signed_of_nat signed_take_bit_int_eq_self)
  then show ?thesis
    by (simp add: scast_eq)
qed

lemma unat_xor_index:
  fixes S :: ull and i :: nat
  assumes "i < 2 ^ 31"
  shows "unat (S XOR word_of_nat i) = unat S XOR i"
proof -
  from assms have "i < 2 ^ 64"
    by simp
  then have "unat (word_of_nat i :: ull) = i"
    by (simp add: unat_of_nat)
  then show ?thesis
    by (simp add: unsigned_xor_eq)
qed

lemma unat_lcg_step:
  fixes x :: ull
  shows "unat (LCG_MULTIPLIER * x + LCG_INCREMENT)
           = (6364136223846793005 * unat x + 1442695040888963407) mod 2 ^ 64"
proof -
  have "unat (LCG_MULTIPLIER * x + LCG_INCREMENT)
          = (unat LCG_MULTIPLIER * unat x mod 2 ^ 64 + unat LCG_INCREMENT) mod 2 ^ 64"
    by (simp add: unat_word_ariths)
  also have "\<dots> = (unat LCG_MULTIPLIER * unat x + unat LCG_INCREMENT) mod 2 ^ 64"
    by (simp add: mod_simps)
  finally show ?thesis
    by (simp add: LCG_MULTIPLIER_def LCG_INCREMENT_def)
qed

lemma glyphSeed_zero: "glyphSeed 0 i = 0"
  by (simp add: glyphSeed_def)

lemma glyphSeed_nonzero:
  "S \<noteq> 0 \<Longrightarrow> glyphSeed S i = LCG_MULTIPLIER * (S XOR scast i) + LCG_INCREMENT"
  by (simp add: glyphSeed_def)

lemma expensiveColoringCalls_nth:
  "i < length glyphs \<Longrightarrow>
     expensiveColoringCalls S glyphs ! i = (glyphs ! i, glyphSeed S (word_of_nat i))"
  by (simp add: expensiveColoringCalls_def)

lemma cheapColoringCalls_length: "length (cheapColoringCalls s glyphs) = length glyphs"
  by (induction glyphs arbitrary: s) simp_all

lemma cheapColoringCalls_nth:
  "k < length glyphs \<Longrightarrow>
     cheapColoringCalls s glyphs ! k = (glyphs ! k, s * LCG_MULTIPLIER ^ Suc k)"
proof (induction glyphs arbitrary: s k)
  case Nil
  then show ?case by simp
next
  case (Cons g gs)
  show ?case
  proof (cases k)
    case 0
    then show ?thesis by simp
  next
    case (Suc m)
    with Cons.prems have "m < length gs" by simp
    from Cons.IH [OF this, of "s * LCG_MULTIPLIER"] Suc show ?thesis
      by (simp add: mult.assoc)
  qed
qed

lemma edgeColoringCalls_cases:
  "edgeColoringCalls c glyphs =
     (if imageType c = MSDF \<or> imageType c = MTSDF
      then (if expensiveColoring c then expensiveColoringCalls (coloringSeed c) glyphs
            else cheapColoringCalls (coloringSeed c) glyphs)
      else [])"
  by (simp add: edgeColoringCalls_def edgeColoringStage_def)

lemma unat_running_seed:
  fixes S :: ull
  shows "unat (S * LCG_MULTIPLIER ^ n) = (unat S * 6364136223846793005 ^ n) mod 2 ^ 64"
proof -
  have "S * LCG_MULTIPLIER ^ n = word_of_nat (unat S * 6364136223846793005 ^ n)"
    by (simp add: LCG_MULTIPLIER_def)
  then show ?thesis
    by (simp only: unat_of_nat) simp
qed

text \<open>
  Claim C1. Under the expensive colouring policy (image type msdf or mtsdf), the glyph of
  index \<open>i\<close> is coloured with the seed \<open>(K * (S xor i) + C) * (if S \<noteq> 0 then 1 else 0)\<close> modulo
  \<open>2 ^ 64\<close>, where \<open>S\<close> is the global seed, \<open>K = 6364136223846793005\<close> and
  \<open>C = 1442695040888963407\<close>; for \<open>S = 0\<close> the seed is 0. The index is the \<^verbatim>\<open>int\<close> the task
  receives, hence below \<open>2 ^ 31\<close>.
\<close>

theorem expensive_seed_formula:
  assumes "imageType c = MSDF \<or> imageType c = MTSDF"
    and "expensiveColoring c"
    and "i < length glyphs" and "i < 2 ^ 31"
  shows "fst (edgeColoringCalls c glyphs ! i) = glyphs ! i
     \<and> unat (snd (edgeColoringCalls c glyphs ! i))
         = ((6364136223846793005 * (unat (coloringSeed c) XOR i) + 1442695040888963407)
              * (if coloringSeed c \<noteq> 0 then 1 else 0)) mod 2 ^ 64
     \<and> (coloringSeed c = 0 \<longrightarrow> snd (edgeColoringCalls c glyphs ! i) = 0)"
proof -
  have call: "edgeColoringCalls c glyphs ! i
                = (glyphs ! i, glyphSeed (coloringSeed c) (word_of_nat i))"
    using assms(1-3) by (simp add: edgeColoringCalls_cases expensiveColoringCalls_nth)
  have "unat (glyphSeed (coloringSeed c) (word_of_nat i))
         = ((6364136223846793005 * (unat (coloringSeed c) XOR i) + 1442695040888963407)
              * (if coloringSeed c \<noteq> 0 then 1 else 0)) mod 2 ^ 64"
  proof (cases "coloringSeed c = 0")
    case True
    then show ?thesis by (simp add: glyphSeed_zero)
  next
    case False
    then show ?thesis
      using assms(4)
      by (simp add: glyphSeed_nonzero scast_nonneg_index unat_lcg_step unat_xor_index)
  qed
  with call show ?thesis
    by (simp add: glyphSeed_zero)
qed

theorem expensive_seed_formula_witness:
  "(imageType (initialConfiguration\<lparr>expensiveColoring := True, coloringSeed := 5\<rparr>) = MSDF
      \<or> imageType (initialConfiguration\<lparr>expensiveColoring := True, coloringSeed := 5\<rparr>) = MTSDF)
   \<and> expensiveColoring (initialConfiguration\<lparr>expensiveColoring := True, coloringSeed := 5\<rparr>)
   \<and> (1 :: nat) < length [''A'', ''B''] \<and> (1 :: nat) < 2 ^ 31
   \<and> fst (edgeColoringCalls (initialConfiguration\<lparr>expensiveColoring := True, coloringSeed := 5\<rparr>)
            [''A'', ''B''] ! 1) = ''B''
   \<and> unat (snd (edgeColoringCalls (initialConfiguration\<lparr>expensiveColoring := True, coloringSeed := 5\<rparr>)
            [''A'', ''B''] ! 1)) = 8452495862566583811"
  using expensive_seed_formula
    [of "initialConfiguration\<lparr>expensiveColoring := True, coloringSeed := 5\<rparr>" 1 "[''A'', ''B'']"]
  by (simp add: initialConfiguration_def)

text \<open>
  Claim C5. For a nonzero global seed, two distinct glyph indices (any two distinct values of
  the task's \<^verbatim>\<open>int\<close> index) get distinct seeds under the expensive policy: multiplying by the
  odd constant \<open>K\<close>, xor with \<open>S\<close> and adding \<open>C\<close> are injective modulo \<open>2 ^ 64\<close>.
\<close>

theorem expensive_seed_injective:
  fixes i j :: "32 word"
  assumes "S \<noteq> 0" and "i \<noteq> j"
  shows "glyphSeed S i \<noteq> glyphSeed S j"
proof
  assume "glyphSeed S i = glyphSeed S j"
  with assms(1) have "LCG_MULTIPLIER * (S XOR scast i) = LCG_MULTIPLIER * (S XOR scast j)"
    by (simp add: glyphSeed_nonzero)
  then have "S XOR scast i = S XOR scast j"
    by (rule LCG_MULTIPLIER_cancel)
  then have "S XOR (S XOR scast i) = S XOR (S XOR scast j)"
    by simp
  then have "(scast i :: ull) = scast j"
    by (simp only: bit.xor_left_self)
  then have "i = j"
    by (rule scast_int_inject)
  with assms(2) show False by simp
qed

theorem expensive_seed_injective_witness:
  "(1 :: ull) \<noteq> 0 \<and> (0 :: 32 word) \<noteq> 1 \<and> glyphSeed 1 0 \<noteq> glyphSeed 1 1"
  using expensive_seed_injective [of 1 0 1]
  by simp

text \<open>
  Claim C6. Under the cheap colouring policy the glyphs are coloured in glyph order with a
  running seed that starts at the global seed \<open>S\<close> and is multiplied by \<open>K\<close> before each glyph:
  the glyph of index \<open>k\<close> gets \<open>S * K ^ (k + 1)\<close> modulo \<open>2 ^ 64\<close>. The calls are made by the loop
  in main itself, one after the other on the thread that runs main; they are not handed to
  \<^verbatim>\<open>Workload\<close>, whatever the thread count.
\<close>

theorem cheap_seed_sequence:
  assumes "imageType c = MSDF \<or> imageType c = MTSDF"
    and "\<not> expensiveColoring c"
    and "k < length glyphs"
  shows "edgeColoringCalls c glyphs ! k = (glyphs ! k, coloringSeed c * LCG_MULTIPLIER ^ (k + 1))
     \<and> unat (snd (edgeColoringCalls c glyphs ! k))
         = (unat (coloringSeed c) * 6364136223846793005 ^ (k + 1)) mod 2 ^ 64
     \<and> length (edgeColoringCalls c glyphs) = length glyphs
     \<and> edgeColoringStage c glyphs = Some (MainLoop, edgeColoringCalls c glyphs)
     \<and> edgeColoringStage c glyphs \<noteq> Some (WorkloadFinish t, calls)"
proof -
  have "edgeColoringStage c glyphs = Some (MainLoop, cheapColoringCalls (coloringSeed c) glyphs)"
    using assms(1,2) by (simp add: edgeColoringStage_def)
  then have run: "edgeColoringStage c glyphs = Some (MainLoop, edgeColoringCalls c glyphs)"
    by (simp add: edgeColoringCalls_def)
  then have "edgeColoringStage c glyphs \<noteq> Some (WorkloadFinish t, calls)"
    by simp
  with run show ?thesis
    using assms
    by (simp add: edgeColoringCalls_cases cheapColoringCalls_nth cheapColoringCalls_length
        unat_running_seed del: power_Suc)
qed

theorem cheap_seed_sequence_witness:
  "(imageType (initialConfiguration\<lparr>coloringSeed := 7\<rparr>) = MSDF
      \<or> imageType (initialConfiguration\<lparr>coloringSeed := 7\<rparr>) = MTSDF)
   \<and> \<not> expensiveColoring (initialConfiguration\<lparr>coloringSeed := 7\<rparr>)
   \<and> (2 :: nat) < length [''A'', ''B'', ''C'']
   \<and> edgeColoringCalls (initialConfiguration\<lparr>coloringSeed := 7\<rparr>) [''A'', ''B'', ''C''] ! 2
       = (''C'', 5557127757395402419)
   \<and> edgeColoringStage (initialConfiguration\<lparr>coloringSeed := 7, threadCount := 8\<rparr>)
         [''A'', ''B'', ''C'']
       = Some (MainLoop, [(''A'', 7655465419508447803), (''B'', 15752795922753241439),
                          (''C'', 5557127757395402419)])
   \<and> dispatch (mainTail symmetricRange (samplePacker 0) sampleSinks
         (initialLocals\<lparr>config := initialConfiguration\<lparr>coloringSeed := 7, threadCount := 8,
            imageFilename := Some ''atlas.png''\<rparr>\<rparr>) [''A'', ''B'', ''C'']) = Some MainLoop"
proof -
  have calls: "edgeColoringCalls (initialConfiguration\<lparr>coloringSeed := 7, threadCount := 8\<rparr>)
       [''A'', ''B'', ''C'']
     = [(''A'', 7655465419508447803), (''B'', 15752795922753241439), (''C'', 5557127757395402419)]"
    by (simp add: edgeColoringCalls_cases initialConfiguration_def LCG_MULTIPLIER_def)
  have tail: "dispatch (mainTail symmetricRange (samplePacker 0) sampleSinks
         (initialLocals\<lparr>config := initialConfiguration\<lparr>coloringSeed := 7, threadCount := 8,
            imageFilename := Some ''atlas.png''\<rparr>\<rparr>) [''A'', ''B'', ''C''])
       = map_option fst (edgeColoringStage
           (storeScaleRange (samplePacker 0 TIGHT
               (packerSettings symmetricRange
                  (initialLocals\<lparr>config := initialConfiguration\<lparr>coloringSeed := 7,
                     threadCount := 8, imageFilename := Some ''atlas.png''\<rparr>\<rparr>))
               [''A'', ''B'', ''C''])
             (storeDimensions (samplePacker 0 TIGHT
               (packerSettings symmetricRange
                  (initialLocals\<lparr>config := initialConfiguration\<lparr>coloringSeed := 7,
                     threadCount := 8, imageFilename := Some ''atlas.png''\<rparr>\<rparr>))
               [''A'', ''B'', ''C''])
               (initialConfiguration\<lparr>coloringSeed := 7, threadCount := 8,
                  imageFilename := Some ''atlas.png''\<rparr>)))
           [''A'', ''B'', ''C''])"
    by (simp add: mainTail_def packStage_def generateStage_def exportStage_def makeAtlas_def
        Let_def split_def samplePacker_def initialLocals_def storeDimensions_def
        storeScaleRange_def initialConfiguration_def)
  show ?thesis
    using cheap_seed_sequence [of "initialConfiguration\<lparr>coloringSeed := 7\<rparr>" 2 "[''A'', ''B'', ''C'']"]
      cheap_seed_sequence [of "initialConfiguration\<lparr>coloringSeed := 7, threadCount := 8\<rparr>" 2
        "[''A'', ''B'', ''C'']"]
      calls tail
    by (simp add: initialConfiguration_def LCG_MULTIPLIER_def edgeColoringStage_def
        storeDimensions_def storeScaleRange_def)
qed

subsection \<open>The fix-up of the configuration\<close>

lemma fixAtlasSizeConstraint_keeps [simp]:
  "config (fixAtlasSizeConstraint st) = config st"
  "packingSpacing (fixAtlasSizeConstraint st) = packingSpacing st"
  "minEmSize (fixAtlasSizeConstraint st) = minEmSize st"
  "fixedWidth (fixAtlasSizeConstraint st) = fixedWidth st"
  "fixedHeight (fixAtlasSizeConstraint st) = fixedHeight st"
  "fixedCellWidth (fixAtlasSizeConstraint st) = fixedCellWidth st"
  "fixedCellHeight (fixAtlasSizeConstraint st) = fixedCellHeight st"
  "explicitErrorCorrectionMode (fixAtlasSizeConstraint st) = explicitErrorCorrectionMode st"
  by (simp_all add: fixAtlasSizeConstraint_def)

lemma fixMiterLimit_keeps [simp]:
  "imageType (config (fixMiterLimit st)) = imageType (config st)"
  "emSize (config (fixMiterLimit st)) = emSize (config st)"
  "threadCount (config (fixMiterLimit st)) = threadCount (config st)"
  "generatorAttributes (config (fixMiterLimit st)) = generatorAttributes (config st)"
  "packingSpacing (fixMiterLimit st) = packingSpacing st"
  "minEmSize (fixMiterLimit st) = minEmSize st"
  "fixedWidth (fixMiterLimit st) = fixedWidth st"
  "fixedHeight (fixMiterLimit st) = fixedHeight st"
  "fixedCellWidth (fixMiterLimit st) = fixedCellWidth st"
  "fixedCellHeight (fixMiterLimit st) = fixedCellHeight st"
  "explicitErrorCorrectionMode (fixMiterLimit st) = explicitErrorCorrectionMode st"
  by (simp_all add: fixMiterLimit_def)

lemma fixMinEmSize_keeps [simp]:
  "config (fixMinEmSize st) = config st"
  "packingSpacing (fixMinEmSize st) = packingSpacing st"
  "fixedWidth (fixMinEmSize st) = fixedWidth st"
  "fixedHeight (fixMinEmSize st) = fixedHeight st"
  "fixedCellWidth (fixMinEmSize st) = fixedCellWidth st"
  "fixedCellHeight (fixMinEmSize st) = fixedCellHeight st"
  "explicitErrorCorrectionMode (fixMinEmSize st) = explicitErrorCorrectionMode st"
  by (simp_all add: fixMinEmSize_def)

lemma fixMinEmSize_max: "minEmSize (fixMinEmSize st) = max (emSize (config st)) (minEmSize st)"
  by (simp add: fixMinEmSize_def max_def)

lemma fixDefaultSize_keeps [simp]:
  "config (fst (fixDefaultSize st)) = config st"
  "packingSpacing (fst (fixDefaultSize st)) = packingSpacing st"
  "explicitErrorCorrectionMode (fst (fixDefaultSize st)) = explicitErrorCorrectionMode st"
  by (simp_all add: fixDefaultSize_def)

lemma fixRange_keeps [simp]:
  "config (fixRange mkRange st) = config st"
  "packingSpacing (fixRange mkRange st) = packingSpacing st"
  "minEmSize (fixRange mkRange st) = minEmSize st"
  "explicitErrorCorrectionMode (fixRange mkRange st) = explicitErrorCorrectionMode st"
  by (simp_all add: fixRange_def)

lemma fixKerning_keeps [simp]:
  "imageType (config (fixKerning st)) = imageType (config st)"
  "threadCount (config (fixKerning st)) = threadCount (config st)"
  "generatorAttributes (config (fixKerning st)) = generatorAttributes (config st)"
  "packingSpacing (fixKerning st) = packingSpacing st"
  "minEmSize (fixKerning st) = minEmSize st"
  "rangeUnits (fixKerning st) = rangeUnits st"
  "rangeValue (fixKerning st) = rangeValue st"
  "explicitErrorCorrectionMode (fixKerning st) = explicitErrorCorrectionMode st"
  by (simp_all add: fixKerning_def)

lemma fixThreadCount_keeps [simp]:
  "imageType (config (fixThreadCount hw st)) = imageType (config st)"
  "generatorAttributes (config (fixThreadCount hw st)) = generatorAttributes (config st)"
  "packingSpacing (fixThreadCount hw st) = packingSpacing st"
  "minEmSize (fixThreadCount hw st) = minEmSize st"
  "rangeUnits (fixThreadCount hw st) = rangeUnits st"
  "rangeValue (fixThreadCount hw st) = rangeValue st"
  "explicitErrorCorrectionMode (fixThreadCount hw st) = explicitErrorCorrectionMode st"
  by (simp_all add: fixThreadCount_def)

lemma fixScanlinePass_keeps [simp]:
  "imageType (config (fst (fixScanlinePass st))) = imageType (config st)"
  "threadCount (config (fst (fixScanlinePass st))) = threadCount (config st)"
  "packingSpacing (fst (fixScanlinePass st)) = packingSpacing st"
  "minEmSize (fst (fixScanlinePass st)) = minEmSize st"
  "rangeUnits (fst (fixScanlinePass st)) = rangeUnits st"
  "rangeValue (fst (fixScanlinePass st)) = rangeValue st"
  by (simp_all add: fixScanlinePass_def setDistanceCheckMode_def)

lemma fixup_locals:
  "fst (fixupConfiguration mkRange hw st)
     = fst (fixScanlinePass (fixThreadCount hw (fixKerning (fixRange mkRange
         (fst (fixDefaultSize (fixMinEmSize (fixMiterLimit (fixAtlasSizeConstraint st)))))))))"
  by (simp add: fixupConfiguration_def Let_def split_def)

lemma fixup_printed:
  "snd (fixupConfiguration mkRange hw st)
     = snd (fixDefaultSize (fixMinEmSize (fixMiterLimit (fixAtlasSizeConstraint st))))
       @ snd (fixScanlinePass (fixThreadCount hw (fixKerning (fixRange mkRange
           (fst (fixDefaultSize (fixMinEmSize (fixMiterLimit (fixAtlasSizeConstraint st)))))))))"
  by (simp add: fixupConfiguration_def Let_def split_def)

lemma fixup_imageType:
  "imageType (config (fst (fixupConfiguration mkRange hw st))) = imageType (config st)"
  by (simp add: fixup_locals)

lemma fixup_packingSpacing:
  "packingSpacing (fst (fixupConfiguration mkRange hw st)) = packingSpacing st"
  by (simp add: fixup_locals)

lemma fixRange_mask:
  "imageType (config st) = HARD_MASK \<or> imageType (config st) = SOFT_MASK \<Longrightarrow>
     rangeUnits (fixRange mkRange st) = PIXELS \<and> rangeValue (fixRange mkRange st) = mkRange 1"
  by (auto simp add: fixRange_def)

text \<open>
  Claim C3. For a hard mask or a soft mask, the fix-up leaves the range in pixels with the
  value \<^verbatim>\<open>Range(1)\<close>, whatever range and units the command line had set; the packer then
  receives that pixel range and an empty unit range.
\<close>

theorem mask_range_forced:
  assumes "imageType (config st) = HARD_MASK \<or> imageType (config st) = SOFT_MASK"
  shows "rangeUnits (fst (fixupConfiguration mkRange hw st)) = PIXELS
     \<and> rangeValue (fst (fixupConfiguration mkRange hw st)) = mkRange 1
     \<and> setPixelRange (packerSettings mkRange (fst (fixupConfiguration mkRange hw st))) = mkRange 1
     \<and> setUnitRange (packerSettings mkRange (fst (fixupConfiguration mkRange hw st))) = mkRange 0"
proof -
  let ?st2 = "fst (fixDefaultSize (fixMinEmSize (fixMiterLimit (fixAtlasSizeConstraint st))))"
  from assms have "imageType (config ?st2) = HARD_MASK \<or> imageType (config ?st2) = SOFT_MASK"
    by simp
  from fixRange_mask [OF this, of mkRange]
  have "rangeUnits (fst (fixupConfiguration mkRange hw st)) = PIXELS
     \<and> rangeValue (fst (fixupConfiguration mkRange hw st)) = mkRange 1"
    by (simp add: fixup_locals)
  then show ?thesis
    by (simp add: packerSettings_def)
qed

theorem mask_range_forced_witness:
  "imageType (config (initialLocals\<lparr>config := initialConfiguration\<lparr>imageType := SOFT_MASK\<rparr>,
        rangeUnits := EMS, rangeValue := symmetricRange (1 / 8)\<rparr>)) = SOFT_MASK
   \<and> rangeUnits (fst (fixupConfiguration symmetricRange 8
        (initialLocals\<lparr>config := initialConfiguration\<lparr>imageType := SOFT_MASK\<rparr>,
           rangeUnits := EMS, rangeValue := symmetricRange (1 / 8)\<rparr>))) = PIXELS
   \<and> rangeValue (fst (fixupConfiguration symmetricRange 8
        (initialLocals\<lparr>config := initialConfiguration\<lparr>imageType := SOFT_MASK\<rparr>,
           rangeUnits := EMS, rangeValue := symmetricRange (1 / 8)\<rparr>)))
       = \<lparr>lower = - (1 / 2), upper = 1 / 2\<rparr>"
  using mask_range_forced
    [of "initialLocals\<lparr>config := initialConfiguration\<lparr>imageType := SOFT_MASK\<rparr>,
           rangeUnits := EMS, rangeValue := symmetricRange (1 / 8)\<rparr>" symmetricRange 8]
  by (simp add: initialLocals_def initialConfiguration_def symmetricRange_def)

lemma fixScanlinePass_on:
  assumes "scanlinePass (generatorAttributes (config st))"
  shows "distanceCheckMode (errorCorrectionOf (fst (fixScanlinePass st))) = DO_NOT_CHECK_DISTANCE"
    and "mode (errorCorrectionOf (fst (fixScanlinePass st))) = mode (errorCorrectionOf st)"
    and "scanlinePass (generatorAttributes (config (fst (fixScanlinePass st))))"
    and "snd (fixScanlinePass st)
          = (if explicitErrorCorrectionMode st
                \<and> distanceCheckMode (errorCorrectionOf st) \<noteq> DO_NOT_CHECK_DISTANCE
             then [WarnErrorCorrectionFallback (fallbackModeName (mode (errorCorrectionOf st)))]
             else [])"
  using assms by (simp_all add: fixScanlinePass_def setDistanceCheckMode_def)

lemma fixDefaultSize_printed:
  "set (snd (fixDefaultSize st)) \<subseteq> {NoticeDefaultSize}"
  by (simp add: fixDefaultSize_def)

lemma fallbackModeName_cases:
  "fallbackModeName m
     = (case m of DISABLED \<Rightarrow> ''disabled'' | INDISCRIMINATE \<Rightarrow> ''distance-fast''
        | EDGE_PRIORITY \<Rightarrow> ''auto-fast'' | EDGE_ONLY \<Rightarrow> ''edge-fast'')"
  by (cases m) simp_all

text \<open>
  Claim C4. With the scanline pass enabled, the fix-up sets the distance-check mode of the
  error correction to \<open>DO_NOT_CHECK_DISTANCE\<close> and keeps the error-correction mode (and the
  scanline pass). It prints a fallback warning exactly when the mode was chosen explicitly
  and its distance-check mode was another one; the warning then names the fallback of the
  chosen mode, \<open>disabled\<close>, \<open>distance-fast\<close>, \<open>auto-fast\<close> or \<open>edge-fast\<close>, and no other
  fallback warning is printed.
\<close>

theorem scanline_disables_distance_check:
  assumes "scanlinePass (generatorAttributes (config st))"
  shows "distanceCheckMode (errorCorrection (genConfig (generatorAttributes
            (config (fst (fixupConfiguration mkRange hw st)))))) = DO_NOT_CHECK_DISTANCE
     \<and> mode (errorCorrection (genConfig (generatorAttributes
            (config (fst (fixupConfiguration mkRange hw st))))))
         = mode (errorCorrection (genConfig (generatorAttributes (config st))))
     \<and> scanlinePass (generatorAttributes (config (fst (fixupConfiguration mkRange hw st))))
     \<and> ((\<exists>name. WarnErrorCorrectionFallback name \<in> set (snd (fixupConfiguration mkRange hw st)))
          \<longleftrightarrow> explicitErrorCorrectionMode st
              \<and> distanceCheckMode (errorCorrection (genConfig (generatorAttributes (config st))))
                  \<noteq> DO_NOT_CHECK_DISTANCE)
     \<and> (explicitErrorCorrectionMode st
          \<and> distanceCheckMode (errorCorrection (genConfig (generatorAttributes (config st))))
              \<noteq> DO_NOT_CHECK_DISTANCE
        \<longrightarrow> WarnErrorCorrectionFallback
              (case mode (errorCorrection (genConfig (generatorAttributes (config st)))) of
                 DISABLED \<Rightarrow> ''disabled''
               | INDISCRIMINATE \<Rightarrow> ''distance-fast''
               | EDGE_PRIORITY \<Rightarrow> ''auto-fast''
               | EDGE_ONLY \<Rightarrow> ''edge-fast'')
              \<in> set (snd (fixupConfiguration mkRange hw st)))
     \<and> (\<forall>name. WarnErrorCorrectionFallback name \<in> set (snd (fixupConfiguration mkRange hw st))
        \<longrightarrow> name = (case mode (errorCorrection (genConfig (generatorAttributes (config st)))) of
                      DISABLED \<Rightarrow> ''disabled''
                    | INDISCRIMINATE \<Rightarrow> ''distance-fast''
                    | EDGE_PRIORITY \<Rightarrow> ''auto-fast''
                    | EDGE_ONLY \<Rightarrow> ''edge-fast''))"
proof -
  let ?st2 = "fst (fixDefaultSize (fixMinEmSize (fixMiterLimit (fixAtlasSizeConstraint st))))"
  let ?st3 = "fixThreadCount hw (fixKerning (fixRange mkRange ?st2))"
  have ga: "generatorAttributes (config ?st3) = generatorAttributes (config st)"
    and ex: "explicitErrorCorrectionMode ?st3 = explicitErrorCorrectionMode st"
    by simp_all
  from assms ga have on: "scanlinePass (generatorAttributes (config ?st3))"
    by simp
  have notice: "WarnErrorCorrectionFallback name
      \<notin> set (snd (fixDefaultSize (fixMinEmSize (fixMiterLimit (fixAtlasSizeConstraint st)))))"
    for name
    using fixDefaultSize_printed [of "fixMinEmSize (fixMiterLimit (fixAtlasSizeConstraint st))"]
    by auto
  show ?thesis
    using fixScanlinePass_on [OF on] notice
    by (simp add: fixup_locals fixup_printed ga ex fallbackModeName_cases)
qed

theorem scanline_disables_distance_check_witness:
  "scanlinePass (generatorAttributes (config (initialLocals\<lparr>explicitErrorCorrectionMode := True\<rparr>)))
   \<and> distanceCheckMode (errorCorrectionOf (fst (fixupConfiguration symmetricRange 8
         (initialLocals\<lparr>explicitErrorCorrectionMode := True\<rparr>)))) = DO_NOT_CHECK_DISTANCE
   \<and> mode (errorCorrectionOf (fst (fixupConfiguration symmetricRange 8
         (initialLocals\<lparr>explicitErrorCorrectionMode := True\<rparr>)))) = EDGE_PRIORITY
   \<and> WarnErrorCorrectionFallback ''auto-fast''
       \<in> set (snd (fixupConfiguration symmetricRange 8
                    (initialLocals\<lparr>explicitErrorCorrectionMode := True\<rparr>)))
   \<and> WarnErrorCorrectionFallback ''edge-fast''
       \<notin> set (snd (fixupConfiguration symmetricRange 8
                    (initialLocals\<lparr>explicitErrorCorrectionMode := True\<rparr>)))
   \<and> WarnErrorCorrectionFallback ''distance-fast''
       \<in> set (snd (fixupConfiguration symmetricRange 8
            (initialLocals\<lparr>config := setErrorCorrection INDISCRIMINATE ALWAYS_CHECK_DISTANCE
                 initialConfiguration, explicitErrorCorrectionMode := True\<rparr>)))
   \<and> WarnErrorCorrectionFallback ''edge-fast''
       \<in> set (snd (fixupConfiguration symmetricRange 8
            (initialLocals\<lparr>config := setErrorCorrection EDGE_ONLY ALWAYS_CHECK_DISTANCE
                 initialConfiguration, explicitErrorCorrectionMode := True\<rparr>)))
   \<and> (\<forall>name. WarnErrorCorrectionFallback name
       \<notin> set (snd (fixupConfiguration symmetricRange 8
            (initialLocals\<lparr>config := setErrorCorrection DISABLED DO_NOT_CHECK_DISTANCE
                 initialConfiguration, explicitErrorCorrectionMode := True\<rparr>))))"
proof -
  let ?auto = "initialLocals\<lparr>explicitErrorCorrectionMode := True\<rparr>"
  let ?distance = "initialLocals\<lparr>config := setErrorCorrection INDISCRIMINATE
      ALWAYS_CHECK_DISTANCE initialConfiguration, explicitErrorCorrectionMode := True\<rparr>"
  let ?edge = "initialLocals\<lparr>config := setErrorCorrection EDGE_ONLY
      ALWAYS_CHECK_DISTANCE initialConfiguration, explicitErrorCorrectionMode := True\<rparr>"
  let ?none = "initialLocals\<lparr>config := setErrorCorrection DISABLED
      DO_NOT_CHECK_DISTANCE initialConfiguration, explicitErrorCorrectionMode := True\<rparr>"
  have on: "scanlinePass (generatorAttributes (config ?auto))"
    "scanlinePass (generatorAttributes (config ?distance))"
    "scanlinePass (generatorAttributes (config ?edge))"
    "scanlinePass (generatorAttributes (config ?none))"
    by (simp_all add: initialLocals_def initialConfiguration_def setErrorCorrection_def)
  have chosen: "explicitErrorCorrectionMode ?auto" "explicitErrorCorrectionMode ?distance"
    "explicitErrorCorrectionMode ?edge" "explicitErrorCorrectionMode ?none"
    by simp_all
  have modes: "mode (errorCorrectionOf ?auto) = EDGE_PRIORITY"
    "mode (errorCorrectionOf ?distance) = INDISCRIMINATE"
    "mode (errorCorrectionOf ?edge) = EDGE_ONLY"
    by (simp_all add: initialLocals_def initialConfiguration_def setErrorCorrection_def)
  have checks: "distanceCheckMode (errorCorrectionOf ?auto) = CHECK_DISTANCE_AT_EDGE"
    "distanceCheckMode (errorCorrectionOf ?distance) = ALWAYS_CHECK_DISTANCE"
    "distanceCheckMode (errorCorrectionOf ?edge) = ALWAYS_CHECK_DISTANCE"
    "distanceCheckMode (errorCorrectionOf ?none) = DO_NOT_CHECK_DISTANCE"
    by (simp_all add: initialLocals_def initialConfiguration_def setErrorCorrection_def)
  have first: "distanceCheckMode (errorCorrectionOf (fst (fixupConfiguration symmetricRange 8 ?auto)))
        = DO_NOT_CHECK_DISTANCE
     \<and> mode (errorCorrectionOf (fst (fixupConfiguration symmetricRange 8 ?auto))) = EDGE_PRIORITY
     \<and> WarnErrorCorrectionFallback ''auto-fast''
         \<in> set (snd (fixupConfiguration symmetricRange 8 ?auto))
     \<and> WarnErrorCorrectionFallback ''edge-fast''
         \<notin> set (snd (fixupConfiguration symmetricRange 8 ?auto))"
    using scanline_disables_distance_check [OF on(1), of symmetricRange 8]
      chosen(1) modes(1) checks(1)
    by auto
  have second: "WarnErrorCorrectionFallback ''distance-fast''
         \<in> set (snd (fixupConfiguration symmetricRange 8 ?distance))"
    using scanline_disables_distance_check [OF on(2), of symmetricRange 8]
      chosen(2) modes(2) checks(2)
    by auto
  have third: "WarnErrorCorrectionFallback ''edge-fast''
         \<in> set (snd (fixupConfiguration symmetricRange 8 ?edge))"
    using scanline_disables_distance_check [OF on(3), of symmetricRange 8]
      chosen(3) modes(3) checks(3)
    by auto
  have fourth: "\<forall>name. WarnErrorCorrectionFallback name
         \<notin> set (snd (fixupConfiguration symmetricRange 8 ?none))"
    using scanline_disables_distance_check [OF on(4), of symmetricRange 8] checks(4)
    by auto
  from on(1) first second third fourth show ?thesis
    by blast
qed

lemma fixDefaultSize_result:
  "minEmSize (fst (fixDefaultSize st))
     = (if \<not> (fixedWidth st > 0 \<and> fixedHeight st > 0)
           \<and> \<not> (fixedCellWidth st > 0 \<and> fixedCellHeight st > 0) \<and> \<not> (minEmSize st > 0)
        then DEFAULT_SIZE else minEmSize st)"
  "snd (fixDefaultSize st)
     = (if \<not> (fixedWidth st > 0 \<and> fixedHeight st > 0)
           \<and> \<not> (fixedCellWidth st > 0 \<and> fixedCellHeight st > 0) \<and> \<not> (minEmSize st > 0)
        then [NoticeDefaultSize] else [])"
  by (simp_all add: fixDefaultSize_def)

lemma fixScanlinePass_no_notice: "NoticeDefaultSize \<notin> set (snd (fixScanlinePass st))"
  by (simp add: fixScanlinePass_def)

text \<open>
  The default scale in terms of main's own tests: when \<^verbatim>\<open>fixedWidth > 0 && fixedHeight > 0\<close>
  fails, the same test for the cell fails and neither scale is positive, the fix-up prints
  the notice and sets the minimum scale to \<open>DEFAULT_SIZE = 32\<close>; otherwise the notice is not
  printed and the minimum scale is the larger of the two scales.
\<close>

lemma fixup_default_size:
  "(\<not> (fixedWidth st > 0 \<and> fixedHeight st > 0)
      \<and> \<not> (fixedCellWidth st > 0 \<and> fixedCellHeight st > 0)
      \<and> \<not> emSize (config st) > 0 \<and> \<not> minEmSize st > 0
    \<longrightarrow> minEmSize (fst (fixupConfiguration mkRange hw st)) = 32
        \<and> NoticeDefaultSize \<in> set (snd (fixupConfiguration mkRange hw st)))
   \<and> ((fixedWidth st > 0 \<and> fixedHeight st > 0)
      \<or> (fixedCellWidth st > 0 \<and> fixedCellHeight st > 0)
      \<or> emSize (config st) > 0 \<or> minEmSize st > 0
    \<longrightarrow> minEmSize (fst (fixupConfiguration mkRange hw st)) = max (emSize (config st)) (minEmSize st)
        \<and> NoticeDefaultSize \<notin> set (snd (fixupConfiguration mkRange hw st)))
   \<and> DEFAULT_SIZE = 32"
proof -
  let ?st1 = "fixMinEmSize (fixMiterLimit (fixAtlasSizeConstraint st))"
  have m: "minEmSize ?st1 = max (emSize (config st)) (minEmSize st)"
    by (simp add: fixMinEmSize_max)
  have pos: "minEmSize ?st1 > 0 \<longleftrightarrow> emSize (config st) > 0 \<or> minEmSize st > 0"
    unfolding m by auto
  have later: "minEmSize (fst (fixupConfiguration mkRange hw st)) = minEmSize (fst (fixDefaultSize ?st1))"
    by (simp add: fixup_locals)
  show ?thesis
    unfolding later fixup_printed
    using pos m fixScanlinePass_no_notice
    by (simp add: fixDefaultSize_result DEFAULT_SIZE_def)
qed

lemma sint_overflow: "sint (2147483648 :: 32 word) = - 2147483648"
  by simp

text \<open>
  Claim C7. With no scale and no size given the fix-up prints the notice and applies the
  default scale 32, and with \<^verbatim>\<open>-dimensions 256 256\<close> it does neither, as the claim says. But
  \<^verbatim>\<open>-dimensions\<close> stores its two \<^verbatim>\<open>unsigned\<close> arguments in \<^verbatim>\<open>int\<close> variables without a
  range check: \<^verbatim>\<open>-dimensions 2147483648 2147483648\<close> is accepted, both variables are
  negative, and the fix-up prints the notice (whose text says that no atlas size was
  specified) and applies the default scale 32 although an atlas size was given.
\<close>

theorem dimensions_overflow_default_size:
  "argDimensions 2147483648 2147483648 initialLocals
     = Some (initialLocals\<lparr>fixedWidth := - 2147483648, fixedHeight := - 2147483648\<rparr>)
   \<and> minEmSize (fst (fixupConfiguration symmetricRange 8
        (initialLocals\<lparr>fixedWidth := - 2147483648, fixedHeight := - 2147483648\<rparr>))) = 32
   \<and> NoticeDefaultSize \<in> set (snd (fixupConfiguration symmetricRange 8
        (initialLocals\<lparr>fixedWidth := - 2147483648, fixedHeight := - 2147483648\<rparr>)))
   \<and> argDimensions 256 256 initialLocals
     = Some (initialLocals\<lparr>fixedWidth := 256, fixedHeight := 256\<rparr>)
   \<and> minEmSize (fst (fixupConfiguration symmetricRange 8
        (initialLocals\<lparr>fixedWidth := 256, fixedHeight := 256\<rparr>))) = 0
   \<and> NoticeDefaultSize \<notin> set (snd (fixupConfiguration symmetricRange 8
        (initialLocals\<lparr>fixedWidth := 256, fixedHeight := 256\<rparr>)))
   \<and> minEmSize (fst (fixupConfiguration symmetricRange 8 initialLocals)) = 32
   \<and> NoticeDefaultSize \<in> set (snd (fixupConfiguration symmetricRange 8 initialLocals))"
proof -
  have parse: "argDimensions 2147483648 2147483648 initialLocals
     = Some (initialLocals\<lparr>fixedWidth := - 2147483648, fixedHeight := - 2147483648\<rparr>)"
    "argDimensions 256 256 initialLocals
     = Some (initialLocals\<lparr>fixedWidth := 256, fixedHeight := 256\<rparr>)"
    by (simp_all add: argDimensions_def sint_overflow)
  show ?thesis
    using parse
      fixup_default_size [of "initialLocals\<lparr>fixedWidth := - 2147483648,
        fixedHeight := - 2147483648\<rparr>" symmetricRange 8]
      fixup_default_size [of "initialLocals\<lparr>fixedWidth := 256, fixedHeight := 256\<rparr>"
        symmetricRange 8]
      fixup_default_size [of initialLocals symmetricRange 8]
    by (simp add: initialLocals_def initialConfiguration_def)
qed

lemma sint_small:
  fixes hw :: "32 word"
  assumes "hw < 2 ^ 31"
  shows "sint hw = uint hw"
proof -
  from assms have "uint hw < 2 ^ 31"
    by (simp add: word_less_def)
  moreover have "- (2 ^ 31) \<le> uint hw"
    by (rule order_trans [of _ 0]) simp_all
  ultimately have "signed_take_bit 31 (uint hw) = uint hw"
    by (rule signed_take_bit_int_eq_self [rotated])
  then show ?thesis
    by (simp add: sint_uint)
qed

text \<open>
  Claim C8. A thread count that is not positive becomes the maximum of the detected hardware
  concurrency (read as \<^verbatim>\<open>int\<close>) and 1; below \<open>2 ^ 31\<close> that reading is the unsigned value
  itself. A positive thread count is kept.
\<close>

theorem effective_thread_count:
  "(threadCount (config st) \<le> 0
      \<longrightarrow> threadCount (config (fst (fixupConfiguration mkRange hw st))) = max (sint hw) 1
        \<and> (hw < 2 ^ 31 \<longrightarrow> threadCount (config (fst (fixupConfiguration mkRange hw st)))
               = max (uint hw) 1))
   \<and> (threadCount (config st) > 0
      \<longrightarrow> threadCount (config (fst (fixupConfiguration mkRange hw st))) = threadCount (config st))"
proof -
  let ?st2 = "fixKerning (fixRange mkRange
     (fst (fixDefaultSize (fixMinEmSize (fixMiterLimit (fixAtlasSizeConstraint st))))))"
  have before: "threadCount (config ?st2) = threadCount (config st)"
    by simp
  have "threadCount (config (fst (fixupConfiguration mkRange hw st)))
          = threadCount (config (fixThreadCount hw ?st2))"
    by (simp add: fixup_locals)
  also have "\<dots> = (if threadCount (config st) \<le> 0 then max (sint hw) 1 else threadCount (config st))"
    unfolding fixThreadCount_def before [symmetric] by simp
  finally show ?thesis
    using sint_small [of hw] by simp
qed

theorem effective_thread_count_witness:
  "threadCount (config initialLocals) \<le> 0
   \<and> threadCount (config (fst (fixupConfiguration symmetricRange 8 initialLocals))) = 8
   \<and> threadCount (config (fst (fixupConfiguration symmetricRange 0 initialLocals))) = 1
   \<and> threadCount (config (fst (fixupConfiguration symmetricRange 8
        (initialLocals\<lparr>config := initialConfiguration\<lparr>threadCount := 3\<rparr>\<rparr>)))) = 3"
  using effective_thread_count [of initialLocals symmetricRange 8]
    effective_thread_count [of initialLocals symmetricRange 0]
    effective_thread_count [of "initialLocals\<lparr>config := initialConfiguration\<lparr>threadCount := 3\<rparr>\<rparr>"
      symmetricRange 8]
  by (simp add: initialLocals_def initialConfiguration_def)

subsection \<open>Packing, generation and export\<close>

lemma glyphCount_small:
  assumes "length glyphs < 2 ^ 31"
  shows "glyphCount glyphs = int (length glyphs)"
proof -
  from assms have "int (length glyphs) < 2 ^ 31"
    by simp
  moreover have "- (2 ^ 31) \<le> int (length glyphs)"
    by (rule order_trans [of _ 0]) simp_all
  ultimately have "signed_take_bit 31 (int (length glyphs)) = int (length glyphs)"
    by (rule signed_take_bit_int_eq_self [rotated])
  then show ?thesis
    by (simp add: glyphCount_def signed_of_nat)
qed

lemma packStage_failure:
  assumes "remaining (pack (packingStyle st) (packerSettings mkRange st) glyphs) \<noteq> 0"
  shows "packStage mkRange pack st glyphs
     = Inl (1, if remaining (pack (packingStyle st) (packerSettings mkRange st) glyphs) < 0
               then [ErrPackFailed]
               else [ErrUnplaced (remaining (pack (packingStyle st) (packerSettings mkRange st) glyphs))
                       (glyphCount glyphs)])"
  using assms by (simp add: packStage_def Let_def)

text \<open>
  Claim C2. When \<^verbatim>\<open>pack\<close> (tight or grid) returns a nonzero value, main returns 1 and has
  neither run the generator nor called an exporter: a negative value prints the generic
  packing failure, a positive value \<open>k\<close> prints \<open>k\<close> with the glyph count (the vector's size
  read as \<^verbatim>\<open>int\<close>, which is the size itself below \<open>2 ^ 31\<close>). Generation and exporters run
  only when \<^verbatim>\<open>pack\<close> returned 0.
\<close>

theorem pack_failure_aborts:
  "let r = remaining (pack (packingStyle st) (packerSettings mkRange st) glyphs);
       out = mainTail mkRange pack sinks st glyphs
   in (r \<noteq> 0 \<longrightarrow>
         exitCode out = 1 \<and> actions out = [] \<and> coloring out = []
         \<and> (r < 0 \<longrightarrow> printed out = [ErrPackFailed])
         \<and> (r > 0 \<longrightarrow> printed out = [ErrUnplaced r (glyphCount glyphs)]
                       \<and> (length glyphs < 2 ^ 31 \<longrightarrow> glyphCount glyphs = int (length glyphs))))
      \<and> (actions out \<noteq> [] \<longrightarrow> r = 0)"
proof -
  let ?r = "remaining (pack (packingStyle st) (packerSettings mkRange st) glyphs)"
  let ?out = "mainTail mkRange pack sinks st glyphs"
  have fail: "exitCode ?out = 1 \<and> actions ?out = [] \<and> coloring ?out = []
        \<and> (?r < 0 \<longrightarrow> printed ?out = [ErrPackFailed])
        \<and> (?r > 0 \<longrightarrow> printed ?out = [ErrUnplaced ?r (glyphCount glyphs)])"
    if "?r \<noteq> 0"
    using packStage_failure [of pack st mkRange glyphs] that by (simp add: mainTail_def)
  then have "actions ?out \<noteq> [] \<longrightarrow> ?r = 0"
    by blast
  with fail show ?thesis
    using glyphCount_small [of glyphs] by (simp add: Let_def)
qed

theorem pack_failure_aborts_witness:
  "remaining (samplePacker 3 (packingStyle initialLocals)
       (packerSettings symmetricRange initialLocals) [''A'', ''B'', ''C'', ''D'']) = 3
   \<and> mainTail symmetricRange (samplePacker 3) sampleSinks
        (initialLocals\<lparr>config := initialConfiguration\<lparr>imageFilename := Some ''atlas.png''\<rparr>\<rparr>)
        [''A'', ''B'', ''C'', ''D'']
       = \<lparr>exitCode = 1, printed = [ErrUnplaced 3 4], actions = [], coloring = [],
          dispatch = None\<rparr>
   \<and> exitCode (mainTail symmetricRange (samplePacker (- 1)) sampleSinks
        (initialLocals\<lparr>config := initialConfiguration\<lparr>imageFilename := Some ''atlas.png''\<rparr>\<rparr>)
        [''A'', ''B'', ''C'', ''D'']) = 1
   \<and> printed (mainTail symmetricRange (samplePacker (- 1)) sampleSinks
        (initialLocals\<lparr>config := initialConfiguration\<lparr>imageFilename := Some ''atlas.png''\<rparr>\<rparr>)
        [''A'', ''B'', ''C'', ''D'']) = [ErrPackFailed]
   \<and> actions (mainTail symmetricRange (samplePacker 0) sampleSinks
        (initialLocals\<lparr>config := initialConfiguration\<lparr>imageFilename := Some ''atlas.png''\<rparr>\<rparr>)
        [''A'', ''B'', ''C'', ''D''])
       = [Generate msdfGenerator 3 False, SaveImage ''atlas.png'']"
  using pack_failure_aborts [of "samplePacker 3"
      "initialLocals\<lparr>config := initialConfiguration\<lparr>imageFilename := Some ''atlas.png''\<rparr>\<rparr>"
      symmetricRange "[''A'', ''B'', ''C'', ''D'']" sampleSinks]
    pack_failure_aborts [of "samplePacker (- 1)"
      "initialLocals\<lparr>config := initialConfiguration\<lparr>imageFilename := Some ''atlas.png''\<rparr>\<rparr>"
      symmetricRange "[''A'', ''B'', ''C'', ''D'']" sampleSinks]
    pack_failure_aborts [of "samplePacker 0"
      "initialLocals\<lparr>config := initialConfiguration\<lparr>imageFilename := Some ''atlas.png''\<rparr>\<rparr>"
      symmetricRange "[''A'', ''B'', ''C'', ''D'']" sampleSinks]
  by (simp add: Let_def samplePacker_def initialLocals_def initialConfiguration_def
      sampleSinks_def mainTail_def packStage_def generateStage_def exportStage_def makeAtlas_def
      storeDimensions_def storeScaleRange_def edgeColoringStage_def LCG_MULTIPLIER_def
      glyphCount_def)

lemma generateStage_config: "config (fst (generateStage sinks st glyphs)) = config st"
  by (simp add: generateStage_def Let_def split_def)

lemma configAfterGeneration_Some:
  assumes "configAfterGeneration mkRange pack sinks st glyphs = Some c'"
  shows "c' = (case packingStyle st of
                 TIGHT \<Rightarrow> storeScaleRange (pack (packingStyle st) (packerSettings mkRange st) glyphs)
                            (storeDimensions (pack (packingStyle st) (packerSettings mkRange st) glyphs)
                               (config st))
               | GRID \<Rightarrow> storeGrid (pack (packingStyle st) (packerSettings mkRange st) glyphs)
                           (storeScaleRange (pack (packingStyle st) (packerSettings mkRange st) glyphs)
                              (storeDimensions (pack (packingStyle st) (packerSettings mkRange st) glyphs)
                                 (config st))))"
  using assms
  by (auto simp add: configAfterGeneration_def packStage_def Let_def generateStage_config
      split: if_splits PackingStyle.splits)

text \<open>
  Claim C9, as amended. Main writes to the configuration once between the call of
  \<^verbatim>\<open>pack\<close> and the end of bitmap generation: right after \<^verbatim>\<open>pack\<close> has returned 0 it stores
  the packer's dimensions, scale and pixel range in \<open>width\<close>, \<open>height\<close>, \<open>emSize\<close> and
  \<open>pxRange\<close> (and, for the grid packer only, the cell size, columns and rows in \<open>grid\<close>).
  Every other field holds at the end of generation the value it had when \<^verbatim>\<open>pack\<close> was
  called, and edge colouring and generation change no field.
\<close>

theorem configuration_frame:
  assumes "configAfterGeneration mkRange pack sinks st glyphs = Some c'"
  shows "imageType c' = imageType (config st)
     \<and> imageFormat c' = imageFormat (config st)
     \<and> yDirection c' = yDirection (config st)
     \<and> angleThreshold c' = angleThreshold (config st)
     \<and> miterLimit c' = miterLimit (config st)
     \<and> pxAlignOriginX c' = pxAlignOriginX (config st)
     \<and> pxAlignOriginY c' = pxAlignOriginY (config st)
     \<and> fixedOriginX (grid c') = fixedOriginX (grid (config st))
     \<and> fixedOriginY (grid c') = fixedOriginY (grid (config st))
     \<and> edgeColoring c' = edgeColoring (config st)
     \<and> expensiveColoring c' = expensiveColoring (config st)
     \<and> coloringSeed c' = coloringSeed (config st)
     \<and> generatorAttributes c' = generatorAttributes (config st)
     \<and> preprocessGeometry c' = preprocessGeometry (config st)
     \<and> kerning c' = kerning (config st)
     \<and> threadCount c' = threadCount (config st)
     \<and> arteryFontFilename c' = arteryFontFilename (config st)
     \<and> imageFilename c' = imageFilename (config st)
     \<and> jsonFilename c' = jsonFilename (config st)
     \<and> csvFilename c' = csvFilename (config st)
     \<and> shadronPreviewFilename c' = shadronPreviewFilename (config st)
     \<and> shadronPreviewText c' = shadronPreviewText (config st)
     \<and> (packingStyle st = TIGHT \<longrightarrow> grid c' = grid (config st))
     \<and> (packingStyle st = GRID \<longrightarrow>
          (cellWidth (grid c'), cellHeight (grid c'))
             = getCellDimensions (pack (packingStyle st) (packerSettings mkRange st) glyphs)
          \<and> cols (grid c') = getColumns (pack (packingStyle st) (packerSettings mkRange st) glyphs)
          \<and> rows (grid c') = getRows (pack (packingStyle st) (packerSettings mkRange st) glyphs))
     \<and> (width c', height c') = getDimensions (pack (packingStyle st) (packerSettings mkRange st) glyphs)
     \<and> emSize c' = getScale (pack (packingStyle st) (packerSettings mkRange st) glyphs)
     \<and> pxRange c' = getPixelRange (pack (packingStyle st) (packerSettings mkRange st) glyphs)
     \<and> config (fst (generateStage sinks st1 glyphs)) = config st1"
  unfolding configAfterGeneration_Some [OF assms]
  by (cases "packingStyle st")
    (simp_all add: storeDimensions_def storeScaleRange_def storeGrid_def generateStage_config)


theorem configuration_frame_witness:
  "configAfterGeneration symmetricRange (samplePacker 0) sampleSinks
       (initialLocals\<lparr>config := initialConfiguration\<lparr>imageFilename := Some ''atlas.png''\<rparr>\<rparr>)
       [''A'', ''B'']
     = Some (initialConfiguration\<lparr>imageFilename := Some ''atlas.png'', width := 64, height := 64,
               emSize := 32, pxRange := symmetricRange 2\<rparr>)
   \<and> imageFilename (initialConfiguration\<lparr>imageFilename := Some ''atlas.png'', width := 64,
         height := 64, emSize := 32, pxRange := symmetricRange 2\<rparr>)
       = imageFilename (config (initialLocals\<lparr>config :=
             initialConfiguration\<lparr>imageFilename := Some ''atlas.png''\<rparr>\<rparr>))
   \<and> threadCount (initialConfiguration\<lparr>imageFilename := Some ''atlas.png'', width := 64,
         height := 64, emSize := 32, pxRange := symmetricRange 2\<rparr>)
       = threadCount (config (initialLocals\<lparr>config :=
             initialConfiguration\<lparr>imageFilename := Some ''atlas.png''\<rparr>\<rparr>))
   \<and> grid (initialConfiguration\<lparr>imageFilename := Some ''atlas.png'', width := 64,
         height := 64, emSize := 32, pxRange := symmetricRange 2\<rparr>)
       = grid (config (initialLocals\<lparr>config :=
             initialConfiguration\<lparr>imageFilename := Some ''atlas.png''\<rparr>\<rparr>))
   \<and> configAfterGeneration symmetricRange sampleGridPacker sampleSinks
       (initialLocals\<lparr>config := initialConfiguration\<lparr>imageFilename := Some ''atlas.png''\<rparr>,
          packingStyle := GRID\<rparr>)
       [''A'', ''B'']
     = Some (initialConfiguration\<lparr>imageFilename := Some ''atlas.png'', width := 64, height := 64,
               emSize := 12, pxRange := symmetricRange 2,
               grid := \<lparr>cellWidth = 16, cellHeight = 16, cols = 4, rows = 4,
                        fixedOriginX = False, fixedOriginY = True\<rparr>\<rparr>)
   \<and> (cellWidth (grid (initialConfiguration\<lparr>imageFilename := Some ''atlas.png'', width := 64,
           height := 64, emSize := 12, pxRange := symmetricRange 2,
           grid := \<lparr>cellWidth = 16, cellHeight = 16, cols = 4, rows = 4,
                    fixedOriginX = False, fixedOriginY = True\<rparr>\<rparr>)),
        cellHeight (grid (initialConfiguration\<lparr>imageFilename := Some ''atlas.png'', width := 64,
           height := 64, emSize := 12, pxRange := symmetricRange 2,
           grid := \<lparr>cellWidth = 16, cellHeight = 16, cols = 4, rows = 4,
                    fixedOriginX = False, fixedOriginY = True\<rparr>\<rparr>)))
       = getCellDimensions (sampleGridPacker
           (packingStyle (initialLocals\<lparr>config :=
               initialConfiguration\<lparr>imageFilename := Some ''atlas.png''\<rparr>, packingStyle := GRID\<rparr>))
           (packerSettings symmetricRange (initialLocals\<lparr>config :=
               initialConfiguration\<lparr>imageFilename := Some ''atlas.png''\<rparr>, packingStyle := GRID\<rparr>))
           [''A'', ''B''])
   \<and> getCellDimensions (sampleGridPacker GRID
           (packerSettings symmetricRange (initialLocals\<lparr>config :=
               initialConfiguration\<lparr>imageFilename := Some ''atlas.png''\<rparr>, packingStyle := GRID\<rparr>))
           [''A'', ''B'']) = (16, 16)"
proof -
  let ?tight = "initialLocals\<lparr>config := initialConfiguration\<lparr>imageFilename := Some ''atlas.png''\<rparr>\<rparr>"
  let ?grid = "initialLocals\<lparr>config := initialConfiguration\<lparr>imageFilename := Some ''atlas.png''\<rparr>,
      packingStyle := GRID\<rparr>"
  have run: "configAfterGeneration symmetricRange (samplePacker 0) sampleSinks ?tight [''A'', ''B'']
     = Some (initialConfiguration\<lparr>imageFilename := Some ''atlas.png'', width := 64, height := 64,
               emSize := 32, pxRange := symmetricRange 2\<rparr>)"
    by (simp add: configAfterGeneration_def packStage_def Let_def generateStage_config
        samplePacker_def initialLocals_def initialConfiguration_def
        storeDimensions_def storeScaleRange_def)
  have tight: "packingStyle ?tight = TIGHT"
    by (simp add: initialLocals_def)
  have gridRun: "configAfterGeneration symmetricRange sampleGridPacker sampleSinks ?grid [''A'', ''B'']
     = Some (initialConfiguration\<lparr>imageFilename := Some ''atlas.png'', width := 64, height := 64,
               emSize := 12, pxRange := symmetricRange 2,
               grid := \<lparr>cellWidth = 16, cellHeight = 16, cols = 4, rows = 4,
                        fixedOriginX = False, fixedOriginY = True\<rparr>\<rparr>)"
    by (simp add: configAfterGeneration_def packStage_def Let_def generateStage_config
        sampleGridPacker_def initialLocals_def initialConfiguration_def
        storeDimensions_def storeScaleRange_def storeGrid_def)
  have isGrid: "packingStyle ?grid = GRID"
    by simp
  have cells: "getCellDimensions (sampleGridPacker GRID (packerSettings symmetricRange ?grid)
      [''A'', ''B'']) = (16, 16)"
    by (simp add: sampleGridPacker_def)
  have kept: "imageFilename (initialConfiguration\<lparr>imageFilename := Some ''atlas.png'', width := 64,
         height := 64, emSize := 32, pxRange := symmetricRange 2\<rparr>)
       = imageFilename (config ?tight)
   \<and> threadCount (initialConfiguration\<lparr>imageFilename := Some ''atlas.png'', width := 64,
         height := 64, emSize := 32, pxRange := symmetricRange 2\<rparr>)
       = threadCount (config ?tight)
   \<and> grid (initialConfiguration\<lparr>imageFilename := Some ''atlas.png'', width := 64,
         height := 64, emSize := 32, pxRange := symmetricRange 2\<rparr>)
       = grid (config ?tight)"
    using tight configuration_frame [OF run] by blast
  have stored: "(cellWidth (grid (initialConfiguration\<lparr>imageFilename := Some ''atlas.png'',
           width := 64, height := 64, emSize := 12, pxRange := symmetricRange 2,
           grid := \<lparr>cellWidth = 16, cellHeight = 16, cols = 4, rows = 4,
                    fixedOriginX = False, fixedOriginY = True\<rparr>\<rparr>)),
        cellHeight (grid (initialConfiguration\<lparr>imageFilename := Some ''atlas.png'', width := 64,
           height := 64, emSize := 12, pxRange := symmetricRange 2,
           grid := \<lparr>cellWidth = 16, cellHeight = 16, cols = 4, rows = 4,
                    fixedOriginX = False, fixedOriginY = True\<rparr>\<rparr>)))
       = getCellDimensions (sampleGridPacker (packingStyle ?grid)
           (packerSettings symmetricRange ?grid) [''A'', ''B''])"
    using isGrid configuration_frame [OF gridRun] by blast
  show ?thesis
    by (intro conjI) (rule run, (rule kept [THEN conjunct1]), (rule kept [THEN conjunct2, THEN conjunct1]),
      (rule kept [THEN conjunct2, THEN conjunct2]), rule gridRun, rule stored, rule cells)
qed

text \<open>
  Claim C9 as stated fails: in a run where the packer reports a 64 by 64 atlas, \<open>width\<close> is 0
  when \<^verbatim>\<open>pack\<close> is called and 64 when generation has completed.
\<close>

theorem configuration_unchanged_counterexample:
  "width (config (initialLocals\<lparr>config := initialConfiguration\<lparr>imageFilename := Some ''atlas.png''\<rparr>\<rparr>)) = 0
   \<and> map_option width (configAfterGeneration symmetricRange (samplePacker 0) sampleSinks
        (initialLocals\<lparr>config := initialConfiguration\<lparr>imageFilename := Some ''atlas.png''\<rparr>\<rparr>)
        [''A'', ''B'']) = Some 64
   \<and> configAfterGeneration symmetricRange (samplePacker 0) sampleSinks
        (initialLocals\<lparr>config := initialConfiguration\<lparr>imageFilename := Some ''atlas.png''\<rparr>\<rparr>)
        [''A'', ''B'']
       \<noteq> Some (config (initialLocals\<lparr>config := initialConfiguration\<lparr>imageFilename := Some ''atlas.png''\<rparr>\<rparr>))"
proof -
  have run: "configAfterGeneration symmetricRange (samplePacker 0) sampleSinks
       (initialLocals\<lparr>config := initialConfiguration\<lparr>imageFilename := Some ''atlas.png''\<rparr>\<rparr>)
       [''A'', ''B'']
     = Some (initialConfiguration\<lparr>imageFilename := Some ''atlas.png'', width := 64, height := 64,
               emSize := 32, pxRange := symmetricRange 2\<rparr>)"
    by (simp add: configAfterGeneration_def packStage_def Let_def generateStage_config
        samplePacker_def initialLocals_def initialConfiguration_def
        storeDimensions_def storeScaleRange_def)
  have "width (initialConfiguration\<lparr>imageFilename := Some ''atlas.png'', width := 64, height := 64,
               emSize := 32, pxRange := symmetricRange 2\<rparr>)
          \<noteq> width (initialConfiguration\<lparr>imageFilename := Some ''atlas.png''\<rparr>)"
    by (simp add: initialConfiguration_def)
  then have "initialConfiguration\<lparr>imageFilename := Some ''atlas.png'', width := 64, height := 64,
               emSize := 32, pxRange := symmetricRange 2\<rparr>
          \<noteq> initialConfiguration\<lparr>imageFilename := Some ''atlas.png''\<rparr>"
    by metis
  with run show ?thesis
    by (simp add: initialLocals_def initialConfiguration_def)
qed

lemma argSpacing_keeps:
  "imageType (config (argSpacing s st)) = imageType (config st)"
  "packingSpacing (argSpacing s st) = sint s"
  by (simp_all add: argSpacing_def)

lemma setSpacing_after_fixup:
  "setSpacing (packerSettings mkRange (fst (fixupConfiguration mkRange hw st)))
     = (if imageType (config st) = SDF \<or> imageType (config st) = MSDF
           \<or> imageType (config st) = MTSDF
        then (if packingSpacing st > 0 then packingSpacing st else 0)
        else -1)"
  by (simp add: packerSettings_def computeSpacing_def fixup_imageType fixup_packingSpacing)

text \<open>
  The spacing in terms of the value of \<^verbatim>\<open>-spacing\<close>, as far as the \<^verbatim>\<open>int\<close> that stores it
  holds that value: for hardmask, softmask and psdf the packer receives -1 whether or not
  the option was given; for sdf, msdf and mtsdf it receives the value when it is positive
  and below \<open>2 ^ 31\<close>, and 0 when the value is 0 or the option is absent
  (\<^verbatim>\<open>packingSpacing\<close> still -1). The image-format and font-loading blocks between the
  fix-up and the packing touch neither the image type nor \<^verbatim>\<open>packingSpacing\<close>.
\<close>

lemma setSpacing_within_int_range:
  "let supplied = fst (fixupConfiguration mkRange hw (argSpacing s st));
       absent = fst (fixupConfiguration mkRange hw (st\<lparr>packingSpacing := - 1\<rparr>))
   in (imageType (config st) = HARD_MASK \<or> imageType (config st) = SOFT_MASK
         \<or> imageType (config st) = PSDF
       \<longrightarrow> setSpacing (packerSettings mkRange supplied) = - 1
           \<and> setSpacing (packerSettings mkRange absent) = - 1)
      \<and> (imageType (config st) = SDF \<or> imageType (config st) = MSDF
           \<or> imageType (config st) = MTSDF
         \<longrightarrow> (0 < s \<and> s < 2 ^ 31 \<longrightarrow> setSpacing (packerSettings mkRange supplied) = uint s)
           \<and> (s = 0 \<longrightarrow> setSpacing (packerSettings mkRange supplied) = 0)
           \<and> setSpacing (packerSettings mkRange absent) = 0)"
proof -
  have pos: "0 < uint s" if "0 < s"
    using that by (simp add: word_less_def)
  show ?thesis
    unfolding Let_def setSpacing_after_fixup argSpacing_keeps
    using sint_small [of s] pos
    by auto
qed

text \<open>
  Claim C10. For msdf, \<^verbatim>\<open>-spacing 2\<close> reaches the packer as 2, \<^verbatim>\<open>-spacing 0\<close> and no
  option as 0, and for psdf the packer gets -1, as the claim says. But \<^verbatim>\<open>-spacing\<close> stores
  its \<^verbatim>\<open>unsigned\<close> argument in the \<^verbatim>\<open>int\<close> \<^verbatim>\<open>packingSpacing\<close> without a range check:
  \<^verbatim>\<open>-spacing 2147483648\<close>, \<^verbatim>\<open>-spacing 3000000000\<close> and \<^verbatim>\<open>-spacing 4294967295\<close> are
  accepted and positive, the variable is negative, and the packer receives 0 instead of
  the value given.
\<close>

theorem spacing_overflow_ignored:
  "imageType (config initialLocals) = MSDF
   \<and> (0 :: 32 word) < 2147483648
   \<and> uint (2147483648 :: 32 word) = 2147483648
   \<and> packingSpacing (argSpacing 2147483648 initialLocals) = - 2147483648
   \<and> setSpacing (packerSettings symmetricRange
        (fst (fixupConfiguration symmetricRange 8 (argSpacing 2147483648 initialLocals)))) = 0
   \<and> setSpacing (packerSettings symmetricRange
        (fst (fixupConfiguration symmetricRange 8 (argSpacing 3000000000 initialLocals)))) = 0
   \<and> setSpacing (packerSettings symmetricRange
        (fst (fixupConfiguration symmetricRange 8 (argSpacing 4294967295 initialLocals)))) = 0
   \<and> setSpacing (packerSettings symmetricRange
        (fst (fixupConfiguration symmetricRange 8 (argSpacing 2 initialLocals)))) = 2
   \<and> setSpacing (packerSettings symmetricRange
        (fst (fixupConfiguration symmetricRange 8 (argSpacing 0 initialLocals)))) = 0
   \<and> setSpacing (packerSettings symmetricRange
        (fst (fixupConfiguration symmetricRange 8 initialLocals))) = 0
   \<and> setSpacing (packerSettings symmetricRange
        (fst (fixupConfiguration symmetricRange 8
           (argSpacing 2 (initialLocals\<lparr>config := initialConfiguration\<lparr>imageType := PSDF\<rparr>\<rparr>))))) = - 1"
  by (simp add: setSpacing_after_fixup argSpacing_keeps initialLocals_def initialConfiguration_def)

end
